theory Spec2Isabelle
  imports Main
begin

section \<open>The program\<close>

text \<open>
  The repository is a single HTTP endpoint, \<open>POST /generate\<close>, that forwards a topic to a
  text-generation API and returns the JSON the model wrote. Three pieces of it are
  modelled: \<open>extractJSON\<close>, which pulls a JSON value out of the model's text;
  \<open>fetchWithRetry\<close>, which repeats a request while the provider answers 503; and the
  handler, which tries a fixed list of models in order and answers with the first result.

  The repository holds the server twice: \<open>src/server.js\<close>, and a second variant,
  \<open>src/unnamed/part_000\<close>, with other messages, no logging of successes, no check of the
  provider's envelope and a shorter list of models. Both are modelled. A definition named
  after a function of the source is the one of \<open>src/server.js\<close>; the same name with the
  suffix \<open>_alt\<close> is the one of \<open>src/unnamed/part_000\<close>.
\<close>

section \<open>JavaScript values\<close>

text \<open>
  The values the endpoint handles are the ones a JSON parser produces, together with
  \<open>undefined\<close>. A string is the list of its characters, one byte each. A number is kept as the decimal
  it was written as, \<open>Number m e\<close> standing for \<open>m \<times> 10\<^sup>e\<close>: the program never computes with
  a number, it only tests one for truthiness. An object is the list of its own properties
  in insertion order, each key once.
\<close>

datatype jsval =
    Undefined
  | Null
  | Bool bool
  | Number int int
  | String string
  | Array "jsval list"
  | Object "(string \<times> jsval) list"

text \<open>
  \<open>ToBoolean\<close>: \<open>undefined\<close>, \<open>null\<close>, \<open>false\<close>, zero and the empty string are falsy, every
  array and object is truthy. A number is zero when the double nearest to it is, that is
  when its magnitude is at most \<open>2\<^sup>-\<^sup>1\<^sup>0\<^sup>7\<^sup>5\<close>, half of the least positive double.
\<close>

fun truthy :: "jsval \<Rightarrow> bool" where
  "truthy Undefined = False"
| "truthy Null = False"
| "truthy (Bool b) = b"
| "truthy (Number m e) = (\<not> \<bar>m\<bar> * 10 ^ nat e * 2 ^ 1075 \<le> 10 ^ nat (- e))"
| "truthy (String s) = (s \<noteq> [])"
| "truthy (Array xs) = True"
| "truthy (Object kvs) = True"

datatype js_error =
    Error string
  | TypeError
  | SyntaxError
  | FetchError

text \<open>
  \<open>ToString\<close>, which a template literal applies to the value it embeds, throws a
  \<open>TypeError\<close> for some objects. A primitive value always converts. An object is asked for
  its \<open>toString\<close> and then its \<open>valueOf\<close>: when the object, parsed from JSON, has a property
  \<open>toString\<close> of its own, that property is not a function, \<open>valueOf\<close> is not one either or
  gives the object back, and the conversion throws; without it the inherited \<open>toString\<close>
  answers. An array joins the conversions of its elements, \<open>null\<close> taken as the empty
  string, and throws when one of them does.
\<close>

fun to_string_throws :: "jsval \<Rightarrow> bool" where
  "to_string_throws (Array xs) = list_ex to_string_throws xs"
| "to_string_throws (Object kvs) = (map_of kvs ''toString'' \<noteq> None)"
| "to_string_throws v = False"

text \<open>
  An array index is a decimal numeral without a sign or a leading zero.
\<close>

definition is_digit :: "char \<Rightarrow> bool" where
  "is_digit c = (48 \<le> (of_char c :: nat) \<and> (of_char c :: nat) \<le> 57)"

definition digit_val :: "char \<Rightarrow> nat" where
  "digit_val c = of_char c - 48"

definition nat_of_digits :: "string \<Rightarrow> nat" where
  "nat_of_digits ds = foldl (\<lambda>n c. 10 * n + digit_val c) 0 ds"

definition index_of_key :: "string \<Rightarrow> nat option" where
  "index_of_key k =
     (if k = [] \<or> \<not> list_all is_digit k \<or> (length k > 1 \<and> hd k = CHR ''0'') then None
      else Some (nat_of_digits k))"

text \<open>
  Reading a property \<open>v[k]\<close>. Reading from \<open>undefined\<close> or \<open>null\<close> throws a \<open>TypeError\<close>;
  a missing property reads as \<open>undefined\<close>. Only own properties are modelled: none of the
  keys the program reads (\<open>topic\<close>, \<open>prompt\<close>, \<open>candidates\<close>, \<open>0\<close>, \<open>content\<close>, \<open>parts\<close>,
  \<open>text\<close>) is inherited from a prototype.
\<close>

fun get_prop :: "jsval \<Rightarrow> string \<Rightarrow> js_error + jsval" where
  "get_prop Undefined k = Inl TypeError"
| "get_prop Null k = Inl TypeError"
| "get_prop (Bool b) k = Inr Undefined"
| "get_prop (Number m e) k = Inr Undefined"
| "get_prop (String s) k =
     (if k = ''length'' then Inr (Number (int (length s)) 0)
      else case index_of_key k of
             None \<Rightarrow> Inr Undefined
           | Some i \<Rightarrow> if i < length s then Inr (String [s ! i]) else Inr Undefined)"
| "get_prop (Array xs) k =
     (if k = ''length'' then Inr (Number (int (length xs)) 0)
      else case index_of_key k of
             None \<Rightarrow> Inr Undefined
           | Some i \<Rightarrow> if i < length xs then Inr (xs ! i) else Inr Undefined)"
| "get_prop (Object kvs) k =
     (case map_of kvs k of None \<Rightarrow> Inr Undefined | Some v \<Rightarrow> Inr v)"

text \<open>
  The optional chain \<open>v?.[k]\<close>: \<open>undefined\<close> when \<open>v\<close> is \<open>undefined\<close> or \<open>null\<close>.
\<close>

definition opt_prop :: "jsval \<Rightarrow> string \<Rightarrow> jsval" where
  "opt_prop v k = (case get_prop v k of Inl e \<Rightarrow> Undefined | Inr x \<Rightarrow> x)"

section \<open>String operations\<close>

text \<open>
  \<open>indexOf\<close> and \<open>lastIndexOf\<close> of a string for a one-character pattern, and of an array
  for an element; \<open>None\<close> is the result \<open>-1\<close>.
\<close>

fun indexOf :: "'a list \<Rightarrow> 'a \<Rightarrow> nat option" where
  "indexOf [] c = None"
| "indexOf (x # xs) c = (if x = c then Some 0 else map_option Suc (indexOf xs c))"

fun lastIndexOf :: "'a list \<Rightarrow> 'a \<Rightarrow> nat option" where
  "lastIndexOf [] c = None"
| "lastIndexOf (x # xs) c =
     (case lastIndexOf xs c of
        Some i \<Rightarrow> Some (Suc i)
      | None \<Rightarrow> if x = c then Some 0 else None)"

text \<open>
  \<open>substring(a, b)\<close>: both indices are clamped to the length, and swapped when the first
  is the greater one.
\<close>

definition substring :: "string \<Rightarrow> nat \<Rightarrow> nat \<Rightarrow> string" where
  "substring s a b =
     (let a' = min a (length s); b' = min b (length s);
          lo = min a' b'; hi = max a' b'
      in take (hi - lo) (drop lo s))"

section \<open>A JSON parser\<close>

text \<open>
  \<open>JSON.parse\<close> and \<open>response.json()\<close> belong to the platform. The functions of the program
  take the parser as a parameter \<open>parse\<close>, \<open>None\<close> standing for the \<open>SyntaxError\<close> it throws,
  and what is proved about them holds for every parser. The parser below reads the JSON
  grammar (RFC 8259) and instantiates the parameter in the examples. It works in two
  passes, characters to tokens and tokens to a value, each one step at a time.
\<close>

datatype token =
    TLBrace | TRBrace | TLBrack | TRBrack | TColon | TComma
  | TString string | TNumber int int | TTrue | TFalse | TNull

text \<open>
  A number literal: an optional minus, an integer part without a leading zero, an optional
  fraction, an optional exponent. \<open>12.5e3\<close> is \<open>125 \<times> 10\<^sup>2\<close>.
\<close>

definition number_of :: "string \<Rightarrow> (int \<times> int) option" where
  "number_of w =
     (let neg = (w \<noteq> [] \<and> hd w = CHR ''-'');
          r0 = (if neg then tl w else w);
          ip = takeWhile is_digit r0;
          r1 = dropWhile is_digit r0;
          has_frac = (r1 \<noteq> [] \<and> hd r1 = CHR ''.'');
          fp = (if has_frac then takeWhile is_digit (tl r1) else []);
          r2 = (if has_frac then dropWhile is_digit (tl r1) else r1);
          has_exp = (r2 \<noteq> [] \<and> (hd r2 = CHR ''e'' \<or> hd r2 = CHR ''E''));
          r3 = (if has_exp then tl r2 else r2);
          eneg = (has_exp \<and> r3 \<noteq> [] \<and> hd r3 = CHR ''-'');
          r4 = (if has_exp \<and> r3 \<noteq> [] \<and> (hd r3 = CHR ''-'' \<or> hd r3 = CHR ''+'') then tl r3 else r3);
          ep = (if has_exp then takeWhile is_digit r4 else []);
          r5 = (if has_exp then dropWhile is_digit r4 else r4);
          m = int (nat_of_digits (ip @ fp));
          e = int (nat_of_digits ep)
      in if ip = [] \<or> (length ip > 1 \<and> hd ip = CHR ''0'') \<or> (has_frac \<and> fp = [])
            \<or> (has_exp \<and> ep = []) \<or> r5 \<noteq> []
         then None
         else Some (if neg then - m else m, (if eneg then - e else e) - int (length fp)))"

definition word_token :: "string \<Rightarrow> token option" where
  "word_token w =
     (if w = ''true'' then Some TTrue
      else if w = ''false'' then Some TFalse
      else if w = ''null'' then Some TNull
      else map_option (\<lambda>(m, e). TNumber m e) (number_of w))"

definition is_space :: "char \<Rightarrow> bool" where
  "is_space c = (c = CHR '' '' \<or> c = CHR 0x09 \<or> c = CHR 0x0A \<or> c = CHR 0x0D)"

definition is_word_char :: "char \<Rightarrow> bool" where
  "is_word_char c =
     (is_digit c \<or> c = CHR ''-'' \<or> c = CHR ''+'' \<or> c = CHR ''.''
      \<or> (65 \<le> (of_char c :: nat) \<and> (of_char c :: nat) \<le> 90)
      \<or> (97 \<le> (of_char c :: nat) \<and> (of_char c :: nat) \<le> 122))"

definition punct :: "char \<Rightarrow> token option" where
  "punct c =
     (if c = CHR ''{'' then Some TLBrace else if c = CHR ''}'' then Some TRBrace
      else if c = CHR ''['' then Some TLBrack else if c = CHR '']'' then Some TRBrack
      else if c = CHR '':'' then Some TColon else if c = CHR '','' then Some TComma
      else None)"

definition hex_val :: "char \<Rightarrow> nat option" where
  "hex_val c =
     (let n = (of_char c :: nat)
      in if 48 \<le> n \<and> n \<le> 57 then Some (n - 48)
         else if 65 \<le> n \<and> n \<le> 70 then Some (n - 55)
         else if 97 \<le> n \<and> n \<le> 102 then Some (n - 87)
         else None)"

text \<open>
  A \<open>\\u\<close> escape names a 16-bit code unit; above 127 it is kept as the bytes of its UTF-8
  form, as the other characters of a text are.
\<close>

definition unit_chars :: "nat \<Rightarrow> string" where
  "unit_chars n =
     (if n < 128 then [char_of n]
      else if n < 2048 then [char_of (192 + n div 64), char_of (128 + n mod 64)]
      else [char_of (224 + n div 4096), char_of (128 + (n div 64) mod 64), char_of (128 + n mod 64)])"

definition escape_char :: "char \<Rightarrow> char option" where
  "escape_char c =
     (if c = CHR 0x22 then Some (CHR 0x22) else if c = CHR 0x5C then Some (CHR 0x5C)
      else if c = CHR ''/'' then Some (CHR ''/'') else if c = CHR ''b'' then Some (CHR 0x08)
      else if c = CHR ''f'' then Some (CHR 0x0C) else if c = CHR ''n'' then Some (CHR 0x0A)
      else if c = CHR ''r'' then Some (CHR 0x0D) else if c = CHR ''t'' then Some (CHR 0x09)
      else None)"

datatype lex_mode =
    Between
  | InString string
  | InEscape string
  | InUnicode string "nat list"
  | InWord string

text \<open>
  The lexer reads one character at a time; the text gathered so far is kept reversed.
\<close>

fun lex :: "lex_mode \<Rightarrow> string \<Rightarrow> token list option" where
  "lex Between [] = Some []"
| "lex Between (c # cs) =
     (if is_space c then lex Between cs
      else if c = CHR 0x22 then lex (InString []) cs
      else if is_word_char c then lex (InWord [c]) cs
      else case punct c of
             None \<Rightarrow> None
           | Some t \<Rightarrow> map_option ((#) t) (lex Between cs))"
| "lex (InString acc) [] = None"
| "lex (InString acc) (c # cs) =
     (if c = CHR 0x22 then map_option ((#) (TString (rev acc))) (lex Between cs)
      else if c = CHR 0x5C then lex (InEscape acc) cs
      else if (of_char c :: nat) < 32 then None
      else lex (InString (c # acc)) cs)"
| "lex (InEscape acc) [] = None"
| "lex (InEscape acc) (c # cs) =
     (if c = CHR ''u'' then lex (InUnicode acc []) cs
      else case escape_char c of
             None \<Rightarrow> None
           | Some x \<Rightarrow> lex (InString (x # acc)) cs)"
| "lex (InUnicode acc ds) [] = None"
| "lex (InUnicode acc ds) (c # cs) =
     (case hex_val c of
        None \<Rightarrow> None
      | Some d \<Rightarrow>
          if length ds = 3
          then lex (InString (rev (unit_chars (foldl (\<lambda>n x. 16 * n + x) 0 (ds @ [d]))) @ acc)) cs
          else lex (InUnicode acc (ds @ [d])) cs)"
| "lex (InWord acc) [] = map_option (\<lambda>t. [t]) (word_token (rev acc))"
| "lex (InWord acc) (c # cs) =
     (if is_word_char c then lex (InWord (c # acc)) cs
      else case word_token (rev acc) of
             None \<Rightarrow> None
           | Some t \<Rightarrow>
               if is_space c then map_option ((#) t) (lex Between cs)
               else if c = CHR 0x22 then map_option ((#) t) (lex (InString []) cs)
               else case punct c of
                      None \<Rightarrow> None
                    | Some p \<Rightarrow> map_option (\<lambda>ts. t # p # ts) (lex Between cs))"

text \<open>
  The parser keeps a stack of the arrays and objects that are still open. An open array
  holds its elements so far, reversed; an open object its properties so far and the key
  whose value is being read. A key that occurs again replaces the earlier value.
\<close>

datatype frame =
    InArray "jsval list"
  | InObject "(string \<times> jsval) list" "string option"

datatype phase =
    WantValue
  | WantFirstElem
  | WantFirstKey
  | WantKey
  | WantColon
  | AfterValue
  | Done jsval

fun set_prop :: "string \<Rightarrow> jsval \<Rightarrow> (string \<times> jsval) list \<Rightarrow> (string \<times> jsval) list" where
  "set_prop k v [] = [(k, v)]"
| "set_prop k v (p # ps) = (if fst p = k then (k, v) # ps else p # set_prop k v ps)"

fun put_value :: "jsval \<Rightarrow> frame list \<Rightarrow> (phase \<times> frame list) option" where
  "put_value v [] = Some (Done v, [])"
| "put_value v (InArray es # st) = Some (AfterValue, InArray (v # es) # st)"
| "put_value v (InObject kvs (Some k) # st) = Some (AfterValue, InObject (set_prop k v kvs) None # st)"
| "put_value v (InObject kvs None # st) = None"

definition begin_value :: "token \<Rightarrow> frame list \<Rightarrow> (phase \<times> frame list) option" where
  "begin_value t st =
     (case t of
        TLBrace \<Rightarrow> Some (WantFirstKey, InObject [] None # st)
      | TLBrack \<Rightarrow> Some (WantFirstElem, InArray [] # st)
      | TString s \<Rightarrow> put_value (String s) st
      | TNumber m e \<Rightarrow> put_value (Number m e) st
      | TTrue \<Rightarrow> put_value (Bool True) st
      | TFalse \<Rightarrow> put_value (Bool False) st
      | TNull \<Rightarrow> put_value Null st
      | _ \<Rightarrow> None)"

definition close_array :: "frame list \<Rightarrow> (phase \<times> frame list) option" where
  "close_array st = (case st of InArray es # st' \<Rightarrow> put_value (Array (rev es)) st' | _ \<Rightarrow> None)"

definition close_object :: "frame list \<Rightarrow> (phase \<times> frame list) option" where
  "close_object st = (case st of InObject kvs None # st' \<Rightarrow> put_value (Object kvs) st' | _ \<Rightarrow> None)"

definition take_key :: "token \<Rightarrow> frame list \<Rightarrow> (phase \<times> frame list) option" where
  "take_key t st =
     (case (t, st) of
        (TString k, InObject kvs None # st') \<Rightarrow> Some (WantColon, InObject kvs (Some k) # st')
      | _ \<Rightarrow> None)"

fun parse_step :: "phase \<Rightarrow> frame list \<Rightarrow> token \<Rightarrow> (phase \<times> frame list) option" where
  "parse_step WantValue st t = begin_value t st"
| "parse_step WantFirstElem st t = (if t = TRBrack then close_array st else begin_value t st)"
| "parse_step WantFirstKey st t = (if t = TRBrace then close_object st else take_key t st)"
| "parse_step WantKey st t = take_key t st"
| "parse_step WantColon st t = (if t = TColon then Some (WantValue, st) else None)"
| "parse_step AfterValue st t =
     (case st of
        InArray es # st' \<Rightarrow>
          if t = TComma then Some (WantValue, st)
          else if t = TRBrack then close_array st else None
      | InObject kvs k # st' \<Rightarrow>
          if t = TComma then Some (WantKey, st)
          else if t = TRBrace then close_object st else None
      | [] \<Rightarrow> None)"
| "parse_step (Done v) st t = None"

fun parse_tokens :: "phase \<Rightarrow> frame list \<Rightarrow> token list \<Rightarrow> jsval option" where
  "parse_tokens ph st [] = (case ph of Done v \<Rightarrow> Some v | _ \<Rightarrow> None)"
| "parse_tokens ph st (t # ts) =
     (case parse_step ph st t of
        None \<Rightarrow> None
      | Some (ph', st') \<Rightarrow> parse_tokens ph' st' ts)"

definition JSON_parse :: "string \<Rightarrow> jsval option" where
  "JSON_parse s = (case lex Between s of None \<Rightarrow> None | Some ts \<Rightarrow> parse_tokens WantValue [] ts)"

section \<open>The JSON extractor\<close>

text \<open>
  \<open>extractJSON\<close> of \<open>src/server.js\<close>. The body of its \<open>try\<close> block comes first. On a string
  it looks for the first \<open>{\<close> and the last \<open>}\<close>, throws when one of them is missing and
  parses \<open>text.substring(start, end + 1)\<close> otherwise. An array has \<open>indexOf\<close> and
  \<open>lastIndexOf\<close> too, but no \<open>substring\<close>; any other value has none of them, and the
  call throws a \<open>TypeError\<close>.
\<close>

fun extractJSON_try :: "(string \<Rightarrow> jsval option) \<Rightarrow> jsval \<Rightarrow> js_error + jsval" where
  "extractJSON_try parse (String text) =
     (case (indexOf text (CHR ''{''), lastIndexOf text (CHR ''}'')) of
        (Some start, Some end) \<Rightarrow>
          (case parse (substring text start (end + 1)) of
             None \<Rightarrow> Inl SyntaxError
           | Some v \<Rightarrow> Inr v)
      | _ \<Rightarrow> Inl (Error ''JSON not found''))"
| "extractJSON_try parse (Array xs) =
     (case (indexOf xs (String ''{''), lastIndexOf xs (String ''}'')) of
        (Some start, Some end) \<Rightarrow> Inl TypeError
      | _ \<Rightarrow> Inl (Error ''JSON not found''))"
| "extractJSON_try parse v = Inl TypeError"

text \<open>
  The \<open>catch\<close> block replaces whatever was thrown, the \<open>JSON not found\<close> of the \<open>try\<close>
  block included.
\<close>

definition extractJSON :: "(string \<Rightarrow> jsval option) \<Rightarrow> jsval \<Rightarrow> js_error + jsval" where
  "extractJSON parse text =
     (case extractJSON_try parse text of
        Inl e \<Rightarrow> Inl (Error ''Failed to parse JSON from AI response.'')
      | Inr v \<Rightarrow> Inr v)"

text \<open>
  \<open>extractJSON\<close> of the second variant of the server, \<open>src/unnamed/part_000\<close>: the same
  steps without the \<open>try\<close> and \<open>catch\<close>, and another message.
\<close>

fun extractJSON_alt :: "(string \<Rightarrow> jsval option) \<Rightarrow> jsval \<Rightarrow> js_error + jsval" where
  "extractJSON_alt parse (String text) =
     (case (indexOf text (CHR ''{''), lastIndexOf text (CHR ''}'')) of
        (Some start, Some end) \<Rightarrow>
          (case parse (substring text start (end + 1)) of
             None \<Rightarrow> Inl SyntaxError
           | Some v \<Rightarrow> Inr v)
      | _ \<Rightarrow> Inl (Error ''JSON not found in AI response''))"
| "extractJSON_alt parse (Array xs) =
     (case (indexOf xs (String ''{''), lastIndexOf xs (String ''}'')) of
        (Some start, Some end) \<Rightarrow> Inl TypeError
      | _ \<Rightarrow> Inl (Error ''JSON not found in AI response''))"
| "extractJSON_alt parse v = Inl TypeError"

section \<open>The world outside: transport, timer and console\<close>

text \<open>
  An outbound request is the URL and the options handed to \<open>fetch\<close>. The options differ
  between two requests only in the topic the prompt embeds and in whether the safety
  settings are attached, so these two stand for them.
\<close>

record request =
  url :: string
  prompt_topic :: jsval
  safety_settings :: bool

record response =
  status :: nat
  body :: string

text \<open>
  \<open>fetch\<close> resolves with a response or rejects. The transport decides which from the
  request and from the number of requests issued before it, so that the same request may
  be answered differently each time.
\<close>

datatype reply = Replied response | Rejected

type_synonym transport = "nat \<Rightarrow> request \<Rightarrow> reply"

datatype log_event =
    QuotaExceeded string
  | Overloaded int int
  | Trying string
  | Succeeded string
  | Failed string js_error
  | FailedWarn string
  | GenerationError js_error

text \<open>
  The effects of the program: the requests issued, the delays slept and the lines written
  to the console, each in order.
\<close>

record world =
  requests :: "request list"
  sleeps :: "nat list"
  console :: "log_event list"

definition fetch :: "transport \<Rightarrow> request \<Rightarrow> world \<Rightarrow> reply \<times> world" where
  "fetch T req w = (T (length (requests w)) req, w\<lparr>requests := requests w @ [req]\<rparr>)"

definition sleep :: "nat \<Rightarrow> world \<Rightarrow> world" where
  "sleep ms w = w\<lparr>sleeps := sleeps w @ [ms]\<rparr>"

definition console_log :: "log_event \<Rightarrow> world \<Rightarrow> world" where
  "console_log ev w = w\<lparr>console := console w @ [ev]\<rparr>"

definition ok :: "response \<Rightarrow> bool" where
  "ok r = (200 \<le> status r \<and> status r \<le> 299)"

fun string_of_nat :: "nat \<Rightarrow> string" where
  "string_of_nat n =
     (if n < 10 then [char_of (48 + n)]
      else string_of_nat (n div 10) @ [char_of (48 + n mod 10)])"

section \<open>The retrying fetcher\<close>

text \<open>
  \<open>fetchWithRetry\<close> of \<open>src/server.js\<close>; \<open>fetchWithRetry_from\<close> is its \<open>for\<close> loop, entered
  with the counter \<open>i\<close>.
\<close>

function fetchWithRetry_from ::
  "transport \<Rightarrow> request \<Rightarrow> int \<Rightarrow> nat \<Rightarrow> int \<Rightarrow> world \<Rightarrow> (js_error + response) \<times> world" where
  "fetchWithRetry_from T req retries delay i w =
     (if i < retries then
        (case fetch T req w of
           (Rejected, w1) \<Rightarrow> (Inl FetchError, w1)
         | (Replied r, w1) \<Rightarrow>
             if ok r then (Inr r, w1)
             else if status r = 429 then
               (Inl (Error ''Quota exceeded. Please try again later.''),
                console_log (QuotaExceeded (body r)) w1)
             else if status r = 503 then
               fetchWithRetry_from T req retries delay (i + 1)
                 (sleep delay (console_log (Overloaded (i + 1) retries) w1))
             else
               (Inl (Error (''Google API failed ('' @ string_of_nat (status r) @ ''): '' @ body r)),
                w1))
      else (Inl (Error ''Model overloaded after multiple retries.''), w))"
  by pat_completeness auto
termination
  by (relation "measure (\<lambda>(T, req, retries, delay, i, w). nat (retries - i))") auto

declare fetchWithRetry_from.simps [simp del]

definition fetchWithRetry ::
  "transport \<Rightarrow> request \<Rightarrow> int \<Rightarrow> nat \<Rightarrow> world \<Rightarrow> (js_error + response) \<times> world" where
  "fetchWithRetry T req retries delay w = fetchWithRetry_from T req retries delay 0 w"

text \<open>
  \<open>fetchWithRetry\<close> of \<open>src/unnamed/part_000\<close>: nothing is written to the console, the body
  of a failed response is not read, and the messages differ.
\<close>

function fetchWithRetry_alt_from ::
  "transport \<Rightarrow> request \<Rightarrow> int \<Rightarrow> nat \<Rightarrow> int \<Rightarrow> world \<Rightarrow> (js_error + response) \<times> world" where
  "fetchWithRetry_alt_from T req retries delay i w =
     (if i < retries then
        (case fetch T req w of
           (Rejected, w1) \<Rightarrow> (Inl FetchError, w1)
         | (Replied r, w1) \<Rightarrow>
             if ok r then (Inr r, w1)
             else if status r = 429 then (Inl (Error ''Quota exceeded. Try again later.''), w1)
             else if status r = 503 then
               fetchWithRetry_alt_from T req retries delay (i + 1) (sleep delay w1)
             else (Inl (Error (''Google API error '' @ string_of_nat (status r))), w1))
      else (Inl (Error ''Model overloaded after retries''), w))"
  by pat_completeness auto
termination
  by (relation "measure (\<lambda>(T, req, retries, delay, i, w). nat (retries - i))") auto

declare fetchWithRetry_alt_from.simps [simp del]

definition fetchWithRetry_alt ::
  "transport \<Rightarrow> request \<Rightarrow> int \<Rightarrow> nat \<Rightarrow> world \<Rightarrow> (js_error + response) \<times> world" where
  "fetchWithRetry_alt T req retries delay w = fetchWithRetry_alt_from T req retries delay 0 w"

section \<open>The generation endpoint\<close>

text \<open>
  The reply of the endpoint to its caller: a status code and a JSON body. \<open>ErrorBody e\<close>
  is the object \<open>{ error: m }\<close> with \<open>m\<close> the message of \<open>e\<close>.
\<close>

datatype http_body = JsonBody jsval | ErrorBody js_error

record http_response =
  code :: nat
  payload :: http_body

text \<open>
  \<open>req.body.topic || req.body.prompt\<close>: the second operand is read only when the first is
  falsy.
\<close>

definition select_topic :: "jsval \<Rightarrow> js_error + jsval" where
  "select_topic req_body =
     (case get_prop req_body ''topic'' of
        Inl e \<Rightarrow> Inl e
      | Inr t \<Rightarrow> if truthy t then Inr t else get_prop req_body ''prompt'')"

text \<open>
  \<open>process.env.GOOGLE_API_KEY\<close> is a string or \<open>undefined\<close>; \<open>!API_KEY\<close> holds of
  \<open>undefined\<close> and of the empty string.
\<close>

definition key_missing :: "string option \<Rightarrow> bool" where
  "key_missing API_KEY = (case API_KEY of None \<Rightarrow> True | Some k \<Rightarrow> k = [])"

text \<open>
  The URL is a template literal, in which \<open>undefined\<close> would print as its name.
\<close>

definition api_url :: "string \<Rightarrow> string option \<Rightarrow> string" where
  "api_url model API_KEY =
     ''https://generativelanguage.googleapis.com/v1beta/models/'' @ model
       @ '':generateContent?key='' @ (case API_KEY of None \<Rightarrow> ''undefined'' | Some k \<Rightarrow> k)"

text \<open>
  \<open>data.candidates[0].content.parts[0].text\<close>, and the same path with \<open>?.\<close> at every step.
\<close>

fun read_path :: "jsval \<Rightarrow> string list \<Rightarrow> js_error + jsval" where
  "read_path v [] = Inr v"
| "read_path v (k # ks) = (case get_prop v k of Inl e \<Rightarrow> Inl e | Inr x \<Rightarrow> read_path x ks)"

fun opt_path :: "jsval \<Rightarrow> string list \<Rightarrow> jsval" where
  "opt_path v [] = v"
| "opt_path v (k # ks) = opt_path (opt_prop v k) ks"

definition text_path :: "string list" where
  "text_path = [''candidates'', ''0'', ''content'', ''parts'', ''0'', ''text'']"

subsection \<open>\<open>src/server.js\<close>\<close>

definition MODELS :: "string list" where
  "MODELS = [''gemini-3.0'', ''gemini-2.5-flash-lite'', ''gemini-2.5-flash'', ''gemini-2.5-pro'']"

text \<open>
  The \<open>try\<close> block of the loop over the models: one model's attempt.
\<close>

definition attempt ::
  "transport \<Rightarrow> (string \<Rightarrow> jsval option) \<Rightarrow> string option \<Rightarrow> jsval \<Rightarrow> string \<Rightarrow> world
     \<Rightarrow> (js_error + jsval) \<times> world" where
  "attempt T parse key topic model w =
     (case fetchWithRetry T
             \<lparr>url = api_url model key, prompt_topic = topic, safety_settings = True\<rparr> 3 2000 w of
        (Inl e, w1) \<Rightarrow> (Inl e, w1)
      | (Inr r, w1) \<Rightarrow>
          (case parse (body r) of
             None \<Rightarrow> (Inl SyntaxError, w1)
           | Some data \<Rightarrow>
               if \<not> truthy (opt_path data text_path)
               then (Inl (Error ''Invalid Gemini response structure.''), w1)
               else (case read_path data text_path of
                       Inl e \<Rightarrow> (Inl e, w1)
                     | Inr text \<Rightarrow> (extractJSON parse text, w1))))"

text \<open>
  The loop \<open>for (const model of MODELS)\<close>. It returns \<open>finalResponse\<close>, which is \<open>null\<close>
  until an attempt assigns it; the loop ends there.
\<close>

fun model_loop ::
  "transport \<Rightarrow> (string \<Rightarrow> jsval option) \<Rightarrow> string option \<Rightarrow> jsval \<Rightarrow> string list \<Rightarrow> world
     \<Rightarrow> jsval \<times> world" where
  "model_loop T parse key topic [] w = (Null, w)"
| "model_loop T parse key topic (model # rest) w =
     (case attempt T parse key topic model (console_log (Trying model) w) of
        (Inr v, w1) \<Rightarrow> (v, console_log (Succeeded model) w1)
      | (Inl e, w1) \<Rightarrow> model_loop T parse key topic rest (console_log (Failed model e) w1))"

text \<open>
  The handler of \<open>POST /generate\<close>: the body of its outer \<open>try\<close> block first, which
  either responds or throws. After the two guards it builds the prompt, a template
  literal that embeds the topic: this is where a topic that does not convert to a string
  throws. The 400 response returns before that.
\<close>

definition generate_try ::
  "transport \<Rightarrow> (string \<Rightarrow> jsval option) \<Rightarrow> string option \<Rightarrow> jsval \<Rightarrow> world
     \<Rightarrow> (js_error + http_response) \<times> world" where
  "generate_try T parse API_KEY req_body w =
     (case select_topic req_body of
        Inl e \<Rightarrow> (Inl e, w)
      | Inr topic \<Rightarrow>
          if key_missing API_KEY then (Inl (Error ''GOOGLE_API_KEY missing in .env''), w)
          else if \<not> truthy topic
          then (Inr \<lparr>code = 400, payload = ErrorBody (Error ''Topic or prompt is required.'')\<rparr>, w)
          else if to_string_throws topic then (Inl TypeError, w)
          else (case model_loop T parse API_KEY topic MODELS w of
                  (finalResponse, w1) \<Rightarrow>
                    if \<not> truthy finalResponse
                    then (Inl (Error ''All Gemini models are unavailable or quota exhausted.''), w1)
                    else (Inr \<lparr>code = 200, payload = JsonBody finalResponse\<rparr>, w1)))"

definition generate ::
  "transport \<Rightarrow> (string \<Rightarrow> jsval option) \<Rightarrow> string option \<Rightarrow> jsval \<Rightarrow> world
     \<Rightarrow> http_response \<times> world" where
  "generate T parse API_KEY req_body w =
     (case generate_try T parse API_KEY req_body w of
        (Inr res, w1) \<Rightarrow> (res, w1)
      | (Inl e, w1) \<Rightarrow> (\<lparr>code = 503, payload = ErrorBody e\<rparr>, console_log (GenerationError e) w1))"

subsection \<open>\<open>src/unnamed/part_000\<close>\<close>

definition MODELS_alt :: "string list" where
  "MODELS_alt = [''gemini-2.5-flash-lite'', ''gemini-2.5-flash'', ''gemini-2.5-pro'']"

definition attempt_alt ::
  "transport \<Rightarrow> (string \<Rightarrow> jsval option) \<Rightarrow> string option \<Rightarrow> jsval \<Rightarrow> string \<Rightarrow> world
     \<Rightarrow> (js_error + jsval) \<times> world" where
  "attempt_alt T parse key topic model w =
     (case fetchWithRetry_alt T
             \<lparr>url = api_url model key, prompt_topic = topic, safety_settings = False\<rparr> 3 2000 w of
        (Inl e, w1) \<Rightarrow> (Inl e, w1)
      | (Inr r, w1) \<Rightarrow>
          (case parse (body r) of
             None \<Rightarrow> (Inl SyntaxError, w1)
           | Some data \<Rightarrow>
               (case read_path data text_path of
                  Inl e \<Rightarrow> (Inl e, w1)
                | Inr text \<Rightarrow> (extractJSON_alt parse text, w1))))"

fun model_loop_alt ::
  "transport \<Rightarrow> (string \<Rightarrow> jsval option) \<Rightarrow> string option \<Rightarrow> jsval \<Rightarrow> string list \<Rightarrow> world
     \<Rightarrow> jsval \<times> world" where
  "model_loop_alt T parse key topic [] w = (Null, w)"
| "model_loop_alt T parse key topic (model # rest) w =
     (case attempt_alt T parse key topic model w of
        (Inr v, w1) \<Rightarrow> (v, w1)
      | (Inl e, w1) \<Rightarrow> model_loop_alt T parse key topic rest (console_log (FailedWarn model) w1))"

definition generate_alt_try ::
  "transport \<Rightarrow> (string \<Rightarrow> jsval option) \<Rightarrow> string option \<Rightarrow> jsval \<Rightarrow> world
     \<Rightarrow> (js_error + http_response) \<times> world" where
  "generate_alt_try T parse API_KEY req_body w =
     (case select_topic req_body of
        Inl e \<Rightarrow> (Inl e, w)
      | Inr topic \<Rightarrow>
          if key_missing API_KEY then (Inl (Error ''GOOGLE_API_KEY missing''), w)
          else if \<not> truthy topic
          then (Inr \<lparr>code = 400, payload = ErrorBody (Error ''Prompt required'')\<rparr>, w)
          else if to_string_throws topic then (Inl TypeError, w)
          else (case model_loop_alt T parse API_KEY topic MODELS_alt w of
                  (result, w1) \<Rightarrow>
                    if \<not> truthy result
                    then (Inl (Error ''All Gemini models unavailable or quota exhausted''), w1)
                    else (Inr \<lparr>code = 200, payload = JsonBody result\<rparr>, w1)))"

definition generate_alt ::
  "transport \<Rightarrow> (string \<Rightarrow> jsval option) \<Rightarrow> string option \<Rightarrow> jsval \<Rightarrow> world
     \<Rightarrow> http_response \<times> world" where
  "generate_alt T parse API_KEY req_body w =
     (case generate_alt_try T parse API_KEY req_body w of
        (Inr res, w1) \<Rightarrow> (res, w1)
      | (Inl e, w1) \<Rightarrow> (\<lparr>code = 503, payload = ErrorBody e\<rparr>, w1))"

section \<open>Example inputs\<close>

text \<open>
  A world in which nothing has happened yet, a request, and two mock transports: one that
  is overloaded for the first two requests, one that always answers with the same status
  and body.
\<close>

definition empty_world :: world where
  "empty_world = \<lparr>requests = [], sleeps = [], console = []\<rparr>"

definition sample_request :: request where
  "sample_request =
     \<lparr>url = api_url ''gemini-2.5-flash'' (Some ''k''), prompt_topic = String ''cats'',
      safety_settings = True\<rparr>"

definition overloaded_twice :: transport where
  "overloaded_twice n req = Replied \<lparr>status = (if n < 2 then 503 else 200), body = ''{}''\<rparr>"

definition always_status :: "nat \<Rightarrow> string \<Rightarrow> transport" where
  "always_status s b n req = Replied \<lparr>status = s, body = b\<rparr>"

text \<open>
  A reply of the provider whose generated text is \<open>s\<close>: the envelope, with \<open>s\<close> as a JSON
  string at \<open>candidates[0].content.parts[0].text\<close>.
\<close>

definition quoted :: "string \<Rightarrow> string" where
  "quoted s = concat (map (\<lambda>c. if c = CHR 0x22 \<or> c = CHR 0x5C then [CHR 0x5C, c] else [c]) s)"

definition envelope_of :: "string \<Rightarrow> string" where
  \<open>envelope_of s = ''{"candidates":[{"content":{"parts":[{"text":"'' @ quoted s @ ''"}]}}]}''\<close>

text \<open>
  A mock transport that serves one model only, with a fixed reply, and answers 404 for
  every other URL; the envelope of \<open>envelope_of s\<close> as a value; a generated text that is
  a complete site, and one whose JSON value has none of the keys \<open>html\<close>, \<open>css\<close>, \<open>js\<close>.
\<close>

definition only_model :: "string \<Rightarrow> string \<Rightarrow> transport" where
  "only_model model reply n req =
     (if url req = api_url model (Some ''k'') then Replied \<lparr>status = 200, body = reply\<rparr>
      else Replied \<lparr>status = 404, body = ''model not found''\<rparr>)"

definition envelope_value :: "string \<Rightarrow> jsval" where
  "envelope_value s =
     Object [(''candidates'',
       Array [Object [(''content'', Object [(''parts'', Array [Object [(''text'', String s)]])])]])]"

definition sample_site_text :: string where
  \<open>sample_site_text = ''{"html":"a","css":"b","js":"c"}''\<close>

definition sample_site :: "(string \<times> jsval) list" where
  "sample_site = [(''html'', String ''a''), (''css'', String ''b''), (''js'', String ''c'')]"

definition bare_text :: string where
  "bare_text = ''Here it is: {} Enjoy''"

text \<open>
  A mock transport that answers every request with 200: with \<open>reply\<close> for the URL of one
  model, with \<open>other\<close> for every other URL.
\<close>

definition reply_by_model :: "string \<Rightarrow> string \<Rightarrow> string \<Rightarrow> transport" where
  "reply_by_model model reply other n req =
     Replied \<lparr>status = 200,
       body = (if url req = api_url model (Some ''k'') then reply else other)\<rparr>"

section \<open>Attempting each model once\<close>

text \<open>
  What "every model of a list is attempted exactly once, in list order" means for the
  world: \<open>attempt_each_once att ms w\<close> is the world after running the attempt \<open>att\<close> on each
  model of \<open>ms\<close> once, one after the other, starting from \<open>w\<close>. It is not taken from the
  source; the loop of the source is compared with it.
\<close>

fun attempt_each_once ::
  "(string \<Rightarrow> world \<Rightarrow> (js_error + jsval) \<times> world) \<Rightarrow> string list \<Rightarrow> world \<Rightarrow> world" where
  "attempt_each_once att [] w = w"
| "attempt_each_once att (m # ms) w = attempt_each_once att ms (snd (att m w))"

section \<open>Reading the console\<close>

text \<open>
  The models announced by a "Trying model" line (\<open>src/server.js\<close>), and the models reported
  by a "failed" warning (\<open>src/unnamed/part_000\<close>), in the order of the lines.
\<close>

fun tried :: "log_event list \<Rightarrow> string list" where
  "tried [] = []"
| "tried (Trying m # evs) = m # tried evs"
| "tried (ev # evs) = tried evs"

fun warned :: "log_event list \<Rightarrow> string list" where
  "warned [] = []"
| "warned (FailedWarn m # evs) = m # warned evs"
| "warned (ev # evs) = warned evs"

section \<open>Properties of the retrying fetcher\<close>

lemmas world_ops = fetch_def sleep_def console_log_def ok_def

text \<open>
  C10. With \<open>retries \<le> 0\<close> the loop is not entered: \<open>fetchWithRetry\<close> fails with the
  "overloaded after retries" error at once and leaves the world as it was, so it has
  issued no request, whatever the url, the options and the transport. This holds for both
  variants of the server, each with its own wording of the message.
\<close>

theorem fetchWithRetry_no_retries:
  "retries \<le> 0 \<Longrightarrow>
     fetchWithRetry T req retries delay w
       = (Inl (Error ''Model overloaded after multiple retries.''), w)
     \<and> fetchWithRetry_alt T req retries delay w
       = (Inl (Error ''Model overloaded after retries''), w)"
  by (simp add: fetchWithRetry_def fetchWithRetry_alt_def
      fetchWithRetry_from.simps [of T req retries delay 0 w]
      fetchWithRetry_alt_from.simps [of T req retries delay 0 w])

theorem fetchWithRetry_no_retries_witness:
  "(- 1 :: int) \<le> 0
   \<and> fetchWithRetry (always_status 200 ''{}'') sample_request (- 1) 2000 empty_world
       = (Inl (Error ''Model overloaded after multiple retries.''), empty_world)
   \<and> fetchWithRetry_alt (always_status 200 ''{}'') sample_request (- 1) 2000 empty_world
       = (Inl (Error ''Model overloaded after retries''), empty_world)"
  using fetchWithRetry_no_retries [of "- 1" "always_status 200 ''{}''" sample_request 2000 empty_world]
  by simp

text \<open>
  C1. With \<open>retries = 3\<close>, when the transport answers the first two requests with 503 and
  the third with 200, \<open>fetchWithRetry\<close> returns the third response after exactly three
  requests and two sleeps of \<open>delayMs\<close> each. When the transport always answers 503, it
  fails with the "overloaded after retries" error after exactly three requests. Both
  variants of the server behave so.
\<close>

theorem fetchWithRetry_overloaded:
  "(T (length (requests w)) req = Replied r1 \<and> status r1 = 503
    \<and> T (length (requests w) + 1) req = Replied r2 \<and> status r2 = 503
    \<and> T (length (requests w) + 2) req = Replied r3 \<and> status r3 = 200
    \<longrightarrow> fetchWithRetry T req 3 delayMs w
          = (Inr r3, w\<lparr>requests := requests w @ [req, req, req],
                       sleeps := sleeps w @ [delayMs, delayMs],
                       console := console w @ [Overloaded 1 3, Overloaded 2 3]\<rparr>)
        \<and> fetchWithRetry_alt T req 3 delayMs w
          = (Inr r3, w\<lparr>requests := requests w @ [req, req, req],
                       sleeps := sleeps w @ [delayMs, delayMs]\<rparr>))
   \<and> ((\<forall>n. \<exists>r. T n req = Replied r \<and> status r = 503)
    \<longrightarrow> fst (fetchWithRetry T req 3 delayMs w)
          = Inl (Error ''Model overloaded after multiple retries.'')
        \<and> requests (snd (fetchWithRetry T req 3 delayMs w)) = requests w @ [req, req, req]
        \<and> fst (fetchWithRetry_alt T req 3 delayMs w) = Inl (Error ''Model overloaded after retries'')
        \<and> requests (snd (fetchWithRetry_alt T req 3 delayMs w)) = requests w @ [req, req, req])"
proof (intro conjI impI)
  assume h: "T (length (requests w)) req = Replied r1 \<and> status r1 = 503
    \<and> T (length (requests w) + 1) req = Replied r2 \<and> status r2 = 503
    \<and> T (length (requests w) + 2) req = Replied r3 \<and> status r3 = 200"
  then show "fetchWithRetry T req 3 delayMs w
          = (Inr r3, w\<lparr>requests := requests w @ [req, req, req],
                       sleeps := sleeps w @ [delayMs, delayMs],
                       console := console w @ [Overloaded 1 3, Overloaded 2 3]\<rparr>)"
    by (simp add: fetchWithRetry_def fetchWithRetry_from.simps [of _ _ 3] world_ops)
  from h show "fetchWithRetry_alt T req 3 delayMs w
          = (Inr r3, w\<lparr>requests := requests w @ [req, req, req],
                       sleeps := sleeps w @ [delayMs, delayMs]\<rparr>)"
    by (simp add: fetchWithRetry_alt_def fetchWithRetry_alt_from.simps [of _ _ 3] world_ops)
next
  assume a: "\<forall>n. \<exists>r. T n req = Replied r \<and> status r = 503"
  obtain r1 where r1: "T (length (requests w)) req = Replied r1" "status r1 = 503"
    using a by blast
  obtain r2 where r2: "T (Suc (length (requests w))) req = Replied r2" "status r2 = 503"
    using a by blast
  obtain r3 where r3: "T (Suc (Suc (length (requests w)))) req = Replied r3" "status r3 = 503"
    using a by blast
  have s: "fetchWithRetry T req 3 delayMs w
      = (Inl (Error ''Model overloaded after multiple retries.''),
         w\<lparr>requests := requests w @ [req, req, req],
           sleeps := sleeps w @ [delayMs, delayMs, delayMs],
           console := console w @ [Overloaded 1 3, Overloaded 2 3, Overloaded 3 3]\<rparr>)"
    using r1 r2 r3
    by (simp add: fetchWithRetry_def fetchWithRetry_from.simps [of _ _ 3] world_ops)
  have t: "fetchWithRetry_alt T req 3 delayMs w
      = (Inl (Error ''Model overloaded after retries''),
         w\<lparr>requests := requests w @ [req, req, req],
           sleeps := sleeps w @ [delayMs, delayMs, delayMs]\<rparr>)"
    using r1 r2 r3
    by (simp add: fetchWithRetry_alt_def fetchWithRetry_alt_from.simps [of _ _ 3] world_ops)
  show "fst (fetchWithRetry T req 3 delayMs w)
          = Inl (Error ''Model overloaded after multiple retries.'')" by (simp add: s)
  show "requests (snd (fetchWithRetry T req 3 delayMs w)) = requests w @ [req, req, req]"
    by (simp add: s)
  show "fst (fetchWithRetry_alt T req 3 delayMs w) = Inl (Error ''Model overloaded after retries'')"
    by (simp add: t)
  show "requests (snd (fetchWithRetry_alt T req 3 delayMs w)) = requests w @ [req, req, req]"
    by (simp add: t)
qed


theorem fetchWithRetry_overloaded_witness:
  "(overloaded_twice (length (requests empty_world)) sample_request
       = Replied \<lparr>status = 503, body = ''{}''\<rparr>
    \<and> status \<lparr>status = 503, body = ''{}''\<rparr> = 503
    \<and> overloaded_twice (length (requests empty_world) + 1) sample_request
       = Replied \<lparr>status = 503, body = ''{}''\<rparr>
    \<and> overloaded_twice (length (requests empty_world) + 2) sample_request
       = Replied \<lparr>status = 200, body = ''{}''\<rparr>
    \<and> status \<lparr>status = 200, body = ''{}''\<rparr> = 200)
   \<and> fetchWithRetry overloaded_twice sample_request 3 2000 empty_world
       = (Inr \<lparr>status = 200, body = ''{}''\<rparr>,
          \<lparr>requests = [sample_request, sample_request, sample_request],
           sleeps = [2000, 2000], console = [Overloaded 1 3, Overloaded 2 3]\<rparr>)
   \<and> fetchWithRetry_alt overloaded_twice sample_request 3 2000 empty_world
       = (Inr \<lparr>status = 200, body = ''{}''\<rparr>,
          \<lparr>requests = [sample_request, sample_request, sample_request],
           sleeps = [2000, 2000], console = []\<rparr>)
   \<and> (\<forall>n. \<exists>r. always_status 503 ''busy'' n sample_request = Replied r \<and> status r = 503)
   \<and> fst (fetchWithRetry (always_status 503 ''busy'') sample_request 3 2000 empty_world)
       = Inl (Error ''Model overloaded after multiple retries.'')
   \<and> requests (snd (fetchWithRetry (always_status 503 ''busy'') sample_request 3 2000 empty_world))
       = [sample_request, sample_request, sample_request]
   \<and> fst (fetchWithRetry_alt (always_status 503 ''busy'') sample_request 3 2000 empty_world)
       = Inl (Error ''Model overloaded after retries'')
   \<and> requests (snd (fetchWithRetry_alt (always_status 503 ''busy'') sample_request 3 2000 empty_world))
       = [sample_request, sample_request, sample_request]"
proof -
  have h1: "overloaded_twice (length (requests empty_world)) sample_request
       = Replied \<lparr>status = 503, body = ''{}''\<rparr>
    \<and> status \<lparr>status = 503, body = ''{}''\<rparr> = 503
    \<and> overloaded_twice (length (requests empty_world) + 1) sample_request
       = Replied \<lparr>status = 503, body = ''{}''\<rparr>
    \<and> status \<lparr>status = 503, body = ''{}''\<rparr> = 503
    \<and> overloaded_twice (length (requests empty_world) + 2) sample_request
       = Replied \<lparr>status = 200, body = ''{}''\<rparr>
    \<and> status \<lparr>status = 200, body = ''{}''\<rparr> = 200"
    by (simp add: overloaded_twice_def empty_world_def)
  have h2: "\<forall>n. \<exists>r. always_status 503 ''busy'' n sample_request = Replied r \<and> status r = 503"
    by (simp add: always_status_def)
  from h1 h2
    fetchWithRetry_overloaded [of overloaded_twice empty_world sample_request
      "\<lparr>status = 503, body = ''{}''\<rparr>" "\<lparr>status = 503, body = ''{}''\<rparr>"
      "\<lparr>status = 200, body = ''{}''\<rparr>" 2000]
    fetchWithRetry_overloaded [of "always_status 503 ''busy''" empty_world sample_request
      "\<lparr>status = 503, body = ''{}''\<rparr>" "\<lparr>status = 503, body = ''{}''\<rparr>"
      "\<lparr>status = 200, body = ''{}''\<rparr>" 2000]
  show ?thesis
    by (simp add: empty_world_def)
qed

text \<open>
  C6, as the code has it. When the first response is neither a success nor a 503 and at
  least one attempt is allowed, \<open>fetchWithRetry\<close> fails after exactly one request, without
  a sleep and without a retry: with the quota error when the status is 429, and otherwise
  with an error that names the status. In \<open>src/server.js\<close> that error carries the body of
  the response as well; in \<open>src/unnamed/part_000\<close> it carries the status alone.
\<close>

theorem fetchWithRetry_terminal_status:
  "0 < retries \<Longrightarrow> T (length (requests w)) req = Replied r \<Longrightarrow> \<not> ok r \<Longrightarrow> status r \<noteq> 503 \<Longrightarrow>
     fetchWithRetry T req retries delay w
       = (Inl (Error (if status r = 429 then ''Quota exceeded. Please try again later.''
                      else ''Google API failed ('' @ string_of_nat (status r) @ ''): '' @ body r)),
          w\<lparr>requests := requests w @ [req],
            console := console w @ (if status r = 429 then [QuotaExceeded (body r)] else [])\<rparr>)
     \<and> fetchWithRetry_alt T req retries delay w
       = (Inl (Error (if status r = 429 then ''Quota exceeded. Try again later.''
                      else ''Google API error '' @ string_of_nat (status r))),
          w\<lparr>requests := requests w @ [req]\<rparr>)"
  by (simp add: fetchWithRetry_def fetchWithRetry_alt_def fetch_def console_log_def
      fetchWithRetry_from.simps [of T req retries delay 0 w]
      fetchWithRetry_alt_from.simps [of T req retries delay 0 w])

theorem fetchWithRetry_terminal_status_witness:
  "(0 :: int) < 3
   \<and> always_status 500 ''boom'' (length (requests empty_world)) sample_request
       = Replied \<lparr>status = 500, body = ''boom''\<rparr>
   \<and> \<not> ok \<lparr>status = 500, body = ''boom''\<rparr>
   \<and> status \<lparr>status = 500, body = ''boom''\<rparr> \<noteq> 503
   \<and> fetchWithRetry (always_status 500 ''boom'') sample_request 3 2000 empty_world
       = (Inl (Error (''Google API failed ('' @ string_of_nat 500 @ ''): boom'')),
          \<lparr>requests = [sample_request], sleeps = [], console = []\<rparr>)
   \<and> fetchWithRetry_alt (always_status 500 ''boom'') sample_request 3 2000 empty_world
       = (Inl (Error (''Google API error '' @ string_of_nat 500)),
          \<lparr>requests = [sample_request], sleeps = [], console = []\<rparr>)"
  using fetchWithRetry_terminal_status [of 3 "always_status 500 ''boom''" empty_world sample_request
      "\<lparr>status = 500, body = ''boom''\<rparr>" 2000]
  by (simp add: always_status_def empty_world_def ok_def)

text \<open>
  The claim says the error carries the status and the body. In \<open>src/unnamed/part_000\<close>
  two responses with the same status and different bodies give the same error.
\<close>

lemma string_of_nat_500: "string_of_nat 500 = ''500''"
  by code_simp

theorem upstream_error_body_counterexample:
  "fst (fetchWithRetry_alt (always_status 500 ''first body'') sample_request 3 2000 empty_world)
     = Inl (Error ''Google API error 500'')
   \<and> fst (fetchWithRetry_alt (always_status 500 ''second body'') sample_request 3 2000 empty_world)
     = Inl (Error ''Google API error 500'')"
  by (simp add: fetchWithRetry_alt_def fetchWithRetry_alt_from.simps [of _ _ 3] world_ops
      always_status_def string_of_nat_500 del: string_of_nat.simps)


section \<open>Properties of the JSON extractor\<close>

text \<open>
  What \<open>indexOf\<close> and \<open>lastIndexOf\<close> find: the position of the first, respectively the
  last, occurrence.
\<close>

lemma indexOf_None_iff: "indexOf xs c = None \<longleftrightarrow> c \<notin> set xs"
  by (induction xs) auto

lemma lastIndexOf_None_iff: "lastIndexOf xs c = None \<longleftrightarrow> c \<notin> set xs"
  by (induction xs) (auto split: option.splits)

lemma lastIndexOf_Some_mem: "lastIndexOf xs c = Some i \<Longrightarrow> c \<in> set xs"
  using lastIndexOf_None_iff [of xs c] by simp

lemma indexOf_Some_iff:
  "indexOf xs c = Some i \<longleftrightarrow> i < length xs \<and> xs ! i = c \<and> c \<notin> set (take i xs)"
proof (induction xs arbitrary: i)
  case Nil
  then show ?case by simp
next
  case (Cons x xs)
  show ?case
  proof (cases i)
    case 0
    then show ?thesis by auto
  next
    case (Suc k)
    then show ?thesis using Cons.IH [of k] by auto
  qed
qed

lemma lastIndexOf_Some_iff:
  "lastIndexOf xs c = Some j \<longleftrightarrow> j < length xs \<and> xs ! j = c \<and> c \<notin> set (drop (Suc j) xs)"
proof (induction xs arbitrary: j)
  case Nil
  then show ?case by simp
next
  case (Cons x xs)
  show ?case
  proof (cases j)
    case 0
    then show ?thesis
      by (auto simp: lastIndexOf_None_iff split: option.splits dest: lastIndexOf_Some_mem)
  next
    case (Suc k)
    then show ?thesis using Cons.IH [of k]
      by (auto simp: lastIndexOf_None_iff split: option.splits dest: lastIndexOf_Some_mem)
  qed
qed

text \<open>
  When the first \<open>{\<close> is at \<open>i\<close>, the last \<open>}\<close> at \<open>j\<close> and \<open>i \<le> j\<close>, both variants hand
  the characters from \<open>i\<close> to \<open>j\<close>, both included, to the parser.
\<close>

lemma extractJSON_try_in_order:
  assumes "i < length text" "text ! i = CHR ''{''" "CHR ''{'' \<notin> set (take i text)"
    and "j < length text" "text ! j = CHR ''}''" "CHR ''}'' \<notin> set (drop (Suc j) text)"
    and "i \<le> j"
  shows "extractJSON_try parse (String text)
           = (case parse (take (Suc j - i) (drop i text)) of None \<Rightarrow> Inl SyntaxError | Some v \<Rightarrow> Inr v)"
    and "extractJSON_alt parse (String text)
           = (case parse (take (Suc j - i) (drop i text)) of None \<Rightarrow> Inl SyntaxError | Some v \<Rightarrow> Inr v)"
proof -
  have a: "indexOf text (CHR ''{'') = Some i"
    using assms(1-3) by (simp add: indexOf_Some_iff)
  have b: "lastIndexOf text (CHR ''}'') = Some j"
    using assms(4-6) by (simp add: lastIndexOf_Some_iff)
  have c: "substring text i (Suc j) = take (Suc j - i) (drop i text)"
    using assms(4,7) by (simp add: substring_def min_def max_def)
  show "extractJSON_try parse (String text)
           = (case parse (take (Suc j - i) (drop i text)) of None \<Rightarrow> Inl SyntaxError | Some v \<Rightarrow> Inr v)"
    using a b c by simp
  show "extractJSON_alt parse (String text)
           = (case parse (take (Suc j - i) (drop i text)) of None \<Rightarrow> Inl SyntaxError | Some v \<Rightarrow> Inr v)"
    using a b c by simp
qed

text \<open>
  C5. When the first \<open>{\<close> of the text is at \<open>i\<close>, its last \<open>}\<close> at \<open>j\<close>, \<open>i \<le> j\<close>, and the
  characters from \<open>i\<close> to \<open>j\<close> inclusive parse as the JSON value \<open>v\<close>, \<open>extractJSON\<close> returns
  \<open>v\<close>. In particular, with the JSON parser above, the text
  \<open>prefix {"html":"a","css":"b","js":"c"} suffix\<close> gives the object with \<open>html = "a"\<close>,
  \<open>css = "b"\<close> and \<open>js = "c"\<close>. Both variants of the server behave so.
\<close>

theorem extractJSON_returns_span:
  \<open>(i < length text \<and> text ! i = CHR ''{'' \<and> CHR ''{'' \<notin> set (take i text)
    \<and> j < length text \<and> text ! j = CHR ''}'' \<and> CHR ''}'' \<notin> set (drop (Suc j) text)
    \<and> i \<le> j \<and> parse (take (Suc j - i) (drop i text)) = Some v
    \<longrightarrow> extractJSON parse (String text) = Inr v \<and> extractJSON_alt parse (String text) = Inr v)
   \<and> extractJSON JSON_parse (String ''prefix {"html":"a","css":"b","js":"c"} suffix'')
       = Inr (Object [(''html'', String ''a''), (''css'', String ''b''), (''js'', String ''c'')])
   \<and> extractJSON_alt JSON_parse (String ''prefix {"html":"a","css":"b","js":"c"} suffix'')
       = Inr (Object [(''html'', String ''a''), (''css'', String ''b''), (''js'', String ''c'')])\<close>
proof (intro conjI impI)
  assume h: "i < length text \<and> text ! i = CHR ''{'' \<and> CHR ''{'' \<notin> set (take i text)
    \<and> j < length text \<and> text ! j = CHR ''}'' \<and> CHR ''}'' \<notin> set (drop (Suc j) text)
    \<and> i \<le> j \<and> parse (take (Suc j - i) (drop i text)) = Some v"
  with extractJSON_try_in_order(1) [of i "text" j parse]
  show "extractJSON parse (String text) = Inr v"
    by (simp add: extractJSON_def del: extractJSON_try.simps)
  from h extractJSON_try_in_order(2) [of i "text" j parse]
  show "extractJSON_alt parse (String text) = Inr v"
    by (simp del: extractJSON_alt.simps)
next
  show \<open>extractJSON JSON_parse (String ''prefix {"html":"a","css":"b","js":"c"} suffix'')
       = Inr (Object [(''html'', String ''a''), (''css'', String ''b''), (''js'', String ''c'')])\<close>
    by code_simp
  show \<open>extractJSON_alt JSON_parse (String ''prefix {"html":"a","css":"b","js":"c"} suffix'')
       = Inr (Object [(''html'', String ''a''), (''css'', String ''b''), (''js'', String ''c'')])\<close>
    by code_simp
qed

lemma parse_empty_object: "JSON_parse ''{}'' = Some (Object [])"
  by code_simp

theorem extractJSON_returns_span_witness:
  "(2 < length ''a {} b'' \<and> ''a {} b'' ! 2 = CHR ''{'' \<and> CHR ''{'' \<notin> set (take 2 ''a {} b'')
    \<and> 3 < length ''a {} b'' \<and> ''a {} b'' ! 3 = CHR ''}'' \<and> CHR ''}'' \<notin> set (drop (Suc 3) ''a {} b'')
    \<and> (2 :: nat) \<le> 3 \<and> JSON_parse (take (Suc 3 - 2) (drop 2 ''a {} b'')) = Some (Object []))
   \<and> extractJSON JSON_parse (String ''a {} b'') = Inr (Object [])
   \<and> extractJSON_alt JSON_parse (String ''a {} b'') = Inr (Object [])"
proof -
  have h: "2 < length ''a {} b'' \<and> ''a {} b'' ! 2 = CHR ''{'' \<and> CHR ''{'' \<notin> set (take 2 ''a {} b'')
    \<and> 3 < length ''a {} b'' \<and> ''a {} b'' ! 3 = CHR ''}'' \<and> CHR ''}'' \<notin> set (drop (Suc 3) ''a {} b'')
    \<and> (2 :: nat) \<le> 3 \<and> JSON_parse (take (Suc 3 - 2) (drop 2 ''a {} b'')) = Some (Object [])"
    by (simp add: parse_empty_object)
  from h extractJSON_returns_span [of 2 "''a {} b''" 3 JSON_parse "Object []"]
  show ?thesis by blast
qed

text \<open>
  C4. The claim says that \<open>extractJSON\<close> fails with "JSON not found" when the text has no
  \<open>{\<close> or no \<open>}\<close>, or when its first \<open>{\<close> comes after its last \<open>}\<close>. \<open>src/server.js\<close> throws
  that very error inside its \<open>try\<close> block, as \<open>extractJSON_try\<close> shows for the text
  \<open>no braces\<close>, but its own \<open>catch\<close> block replaces it, so that the caller sees "Failed to
  parse JSON from AI response." instead; in \<open>src/unnamed/part_000\<close>, which has no \<open>catch\<close>,
  the "not found" error reaches the caller. Neither variant compares the two positions:
  for the text \<open>}5{\<close>, \<open>substring\<close> swaps its arguments, \<open>5\<close> is parsed and returned, and
  nothing fails.
\<close>

theorem extractJSON_not_found_replaced:
  "extractJSON_try JSON_parse (String ''no braces'') = Inl (Error ''JSON not found'')
   \<and> extractJSON JSON_parse (String ''no braces'')
       = Inl (Error ''Failed to parse JSON from AI response.'')
   \<and> extractJSON_alt JSON_parse (String ''no braces'') = Inl (Error ''JSON not found in AI response'')
   \<and> indexOf ''}5{'' (CHR ''{'') = Some 2 \<and> lastIndexOf ''}5{'' (CHR ''}'') = Some 0
   \<and> extractJSON JSON_parse (String ''}5{'') = Inr (Number 5 0)
   \<and> extractJSON_alt JSON_parse (String ''}5{'') = Inr (Number 5 0)"
  by code_simp

section \<open>Properties of the endpoint\<close>

text \<open>
  C7. When the credential is configured and the JSON body has neither a \<open>topic\<close> nor a
  \<open>prompt\<close> field, as the body \<open>{}\<close> does, the endpoint answers 400 with an error body and
  leaves the world as it was: no outbound request is issued.
\<close>

theorem generate_missing_topic:
  "map_of props ''topic'' = None \<Longrightarrow> map_of props ''prompt'' = None \<Longrightarrow> \<not> key_missing API_KEY \<Longrightarrow>
     generate T parse API_KEY (Object props) w
       = (\<lparr>code = 400, payload = ErrorBody (Error ''Topic or prompt is required.'')\<rparr>, w)
     \<and> generate_alt T parse API_KEY (Object props) w
       = (\<lparr>code = 400, payload = ErrorBody (Error ''Prompt required'')\<rparr>, w)"
  by (simp add: generate_def generate_try_def generate_alt_def generate_alt_try_def select_topic_def)

theorem generate_missing_topic_witness:
  "map_of ([] :: (string \<times> jsval) list) ''topic'' = None
   \<and> map_of ([] :: (string \<times> jsval) list) ''prompt'' = None
   \<and> \<not> key_missing (Some ''k'')
   \<and> generate (always_status 200 ''{}'') JSON_parse (Some ''k'') (Object []) empty_world
       = (\<lparr>code = 400, payload = ErrorBody (Error ''Topic or prompt is required.'')\<rparr>, empty_world)
   \<and> requests (snd (generate (always_status 200 ''{}'') JSON_parse (Some ''k'') (Object []) empty_world)) = []
   \<and> generate_alt (always_status 200 ''{}'') JSON_parse (Some ''k'') (Object []) empty_world
       = (\<lparr>code = 400, payload = ErrorBody (Error ''Prompt required'')\<rparr>, empty_world)"
  using generate_missing_topic [of "[]" "Some ''k''" "always_status 200 ''{}''" JSON_parse empty_world]
  apply (simp add: key_missing_def)
  apply (simp add: empty_world_def)
  done


section \<open>What an attempt does to the world\<close>

text \<open>
  \<open>fetchWithRetry\<close> issues the same request some number of times, at least once when an
  attempt is allowed, and writes no "Trying model" line. So does one model's attempt, with
  a request that carries the topic; the loop over the models issues only such requests.
\<close>

lemma tried_append: "tried (xs @ ys) = tried xs @ tried ys"
  by (induction xs rule: tried.induct) auto

lemma warned_append: "warned (xs @ ys) = warned xs @ warned ys"
  by (induction xs rule: warned.induct) auto

lemma fetchWithRetry_from_effects:
  "\<exists>k. requests (snd (fetchWithRetry_from T req retries delay i w)) = requests w @ replicate k req
     \<and> (i < retries \<longrightarrow> 0 < k)
     \<and> tried (console (snd (fetchWithRetry_from T req retries delay i w))) = tried (console w)"
proof (induction T req retries delay i w rule: fetchWithRetry_from.induct)
  case (1 T req retries delay i w)
  have one: "\<exists>k. [req] = replicate k req \<and> 0 < k"
    by (rule exI [of _ 1]) simp
  show ?case
  proof (cases "i < retries")
    case False
    then show ?thesis
      by (simp add: fetchWithRetry_from.simps [of T req retries delay i w])
  next
    case True
    show ?thesis
    proof (cases "T (length (requests w)) req")
      case Rejected
      with True one show ?thesis
        by (simp add: fetchWithRetry_from.simps [of T req retries delay i w] fetch_def)
    next
      case (Replied r)
      consider (good) "ok r" | (quota) "\<not> ok r" "status r = 429"
        | (busy) "\<not> ok r" "status r = 503" | (other) "\<not> ok r" "status r \<noteq> 429" "status r \<noteq> 503"
        by force
      then show ?thesis
      proof cases
        case good
        with True Replied one show ?thesis
          by (simp add: fetchWithRetry_from.simps [of T req retries delay i w] fetch_def)
      next
        case quota
        with True Replied one show ?thesis
          by (simp add: fetchWithRetry_from.simps [of T req retries delay i w] fetch_def
              console_log_def tried_append)
      next
        case other
        with True Replied one show ?thesis
          by (simp add: fetchWithRetry_from.simps [of T req retries delay i w] fetch_def)
      next
        case busy
        let ?w1 = "w\<lparr>requests := requests w @ [req]\<rparr>"
        let ?w2 = "sleep delay (console_log (Overloaded (i + 1) retries) ?w1)"
        have f: "fetch T req w = (Replied r, ?w1)"
          using Replied by (simp add: fetch_def)
        have step: "fetchWithRetry_from T req retries delay i w
            = fetchWithRetry_from T req retries delay (i + 1) ?w2"
          using True busy f by (simp add: fetchWithRetry_from.simps [of T req retries delay i w])
        from "1.IH" [OF True f [symmetric] refl] busy
        obtain k where k: "requests (snd (fetchWithRetry_from T req retries delay (i + 1) ?w2))
              = requests ?w2 @ replicate k req"
          "tried (console (snd (fetchWithRetry_from T req retries delay (i + 1) ?w2)))
              = tried (console ?w2)"
          by auto
        have w2: "requests ?w2 = requests w @ [req]" "tried (console ?w2) = tried (console w)"
          by (simp_all add: sleep_def console_log_def tried_append)
        show ?thesis
          unfolding step
          by (rule exI [of _ "Suc k"]) (simp add: k w2)
      qed
    qed
  qed
qed

lemma fetchWithRetry_alt_from_effects:
  "\<exists>k. requests (snd (fetchWithRetry_alt_from T req retries delay i w)) = requests w @ replicate k req
     \<and> (i < retries \<longrightarrow> 0 < k)
     \<and> console (snd (fetchWithRetry_alt_from T req retries delay i w)) = console w"
proof (induction T req retries delay i w rule: fetchWithRetry_alt_from.induct)
  case (1 T req retries delay i w)
  have one: "\<exists>k. [req] = replicate k req \<and> 0 < k"
    by (rule exI [of _ 1]) simp
  show ?case
  proof (cases "i < retries")
    case False
    then show ?thesis
      by (simp add: fetchWithRetry_alt_from.simps [of T req retries delay i w])
  next
    case True
    show ?thesis
    proof (cases "T (length (requests w)) req")
      case Rejected
      with True one show ?thesis
        by (simp add: fetchWithRetry_alt_from.simps [of T req retries delay i w] fetch_def)
    next
      case (Replied r)
      consider (good) "ok r" | (quota) "\<not> ok r" "status r = 429"
        | (busy) "\<not> ok r" "status r = 503" | (other) "\<not> ok r" "status r \<noteq> 429" "status r \<noteq> 503"
        by force
      then show ?thesis
      proof cases
        case good
        with True Replied one show ?thesis
          by (simp add: fetchWithRetry_alt_from.simps [of T req retries delay i w] fetch_def)
      next
        case quota
        with True Replied one show ?thesis
          by (simp add: fetchWithRetry_alt_from.simps [of T req retries delay i w] fetch_def
              console_log_def tried_append)
      next
        case other
        with True Replied one show ?thesis
          by (simp add: fetchWithRetry_alt_from.simps [of T req retries delay i w] fetch_def)
      next
        case busy
        let ?w1 = "w\<lparr>requests := requests w @ [req]\<rparr>"
        let ?w2 = "sleep delay ?w1"
        have f: "fetch T req w = (Replied r, ?w1)"
          using Replied by (simp add: fetch_def)
        have step: "fetchWithRetry_alt_from T req retries delay i w
            = fetchWithRetry_alt_from T req retries delay (i + 1) ?w2"
          using True busy f by (simp add: fetchWithRetry_alt_from.simps [of T req retries delay i w])
        from "1.IH" [OF True f [symmetric] refl] busy
        obtain k where k: "requests (snd (fetchWithRetry_alt_from T req retries delay (i + 1) ?w2))
              = requests ?w2 @ replicate k req"
          "console (snd (fetchWithRetry_alt_from T req retries delay (i + 1) ?w2))
              = console ?w2"
          by auto
        have w2: "requests ?w2 = requests w @ [req]" "console ?w2 = console w"
          by (simp_all add: sleep_def console_log_def tried_append)
        show ?thesis
          unfolding step
          by (rule exI [of _ "Suc k"]) (simp add: k w2)
      qed
    qed
  qed
qed


lemma attempt_world:
  "snd (attempt T parse key topic model w)
     = snd (fetchWithRetry T
              \<lparr>url = api_url model key, prompt_topic = topic, safety_settings = True\<rparr> 3 2000 w)"
  by (simp add: attempt_def split: prod.splits sum.splits option.splits)

lemma attempt_alt_world:
  "snd (attempt_alt T parse key topic model w)
     = snd (fetchWithRetry_alt T
              \<lparr>url = api_url model key, prompt_topic = topic, safety_settings = False\<rparr> 3 2000 w)"
  by (simp add: attempt_alt_def split: prod.splits sum.splits option.splits)

lemma attempt_effects:
  "\<exists>new. requests (snd (attempt T parse key topic model w)) = requests w @ new
     \<and> new \<noteq> [] \<and> (\<forall>r \<in> set new. prompt_topic r = topic)
     \<and> tried (console (snd (attempt T parse key topic model w))) = tried (console w)"
proof -
  let ?req = "\<lparr>url = api_url model key, prompt_topic = topic, safety_settings = True\<rparr>"
  from fetchWithRetry_from_effects [of T ?req 3 2000 0 w]
  obtain k where k: "requests (snd (fetchWithRetry T ?req 3 2000 w)) = requests w @ replicate k ?req"
    "0 < k" "tried (console (snd (fetchWithRetry T ?req 3 2000 w))) = tried (console w)"
    by (auto simp: fetchWithRetry_def)
  show ?thesis
    unfolding attempt_world
    by (rule exI [of _ "replicate k ?req"]) (use k in auto)
qed

lemma attempt_alt_effects:
  "\<exists>new. requests (snd (attempt_alt T parse key topic model w)) = requests w @ new
     \<and> new \<noteq> [] \<and> (\<forall>r \<in> set new. prompt_topic r = topic)
     \<and> console (snd (attempt_alt T parse key topic model w)) = console w"
proof -
  let ?req = "\<lparr>url = api_url model key, prompt_topic = topic, safety_settings = False\<rparr>"
  from fetchWithRetry_alt_from_effects [of T ?req 3 2000 0 w]
  obtain k where k: "requests (snd (fetchWithRetry_alt T ?req 3 2000 w)) = requests w @ replicate k ?req"
    "0 < k" "console (snd (fetchWithRetry_alt T ?req 3 2000 w)) = console w"
    by (auto simp: fetchWithRetry_alt_def)
  show ?thesis
    unfolding attempt_alt_world
    by (rule exI [of _ "replicate k ?req"]) (use k in auto)
qed

lemma model_loop_requests:
  "\<exists>new. requests (snd (model_loop T parse key topic ms w)) = requests w @ new
     \<and> (ms \<noteq> [] \<longrightarrow> new \<noteq> []) \<and> (\<forall>r \<in> set new. prompt_topic r = topic)"
proof (induction ms arbitrary: w)
  case Nil
  then show ?case by simp
next
  case (Cons m ms)
  let ?w0 = "console_log (Trying m) w"
  obtain res w1 where a: "attempt T parse key topic m ?w0 = (res, w1)"
    by (cases "attempt T parse key topic m ?w0")
  from attempt_effects [of T parse key topic m ?w0] a
  obtain new where new: "requests w1 = requests w @ new" "new \<noteq> []"
    "\<forall>r \<in> set new. prompt_topic r = topic"
    by (auto simp: console_log_def)
  show ?case
  proof (cases res)
    case (Inr v)
    with a new show ?thesis by (auto simp: console_log_def)
  next
    case (Inl e)
    from Cons.IH [of "console_log (Failed m e) w1"]
    obtain more where more: "requests (snd (model_loop T parse key topic ms (console_log (Failed m e) w1)))
        = requests (console_log (Failed m e) w1) @ more" "\<forall>r \<in> set more. prompt_topic r = topic"
      by auto
    have "requests (snd (model_loop T parse key topic (m # ms) w)) = requests w @ (new @ more)"
      using a Inl more(1) new(1) by (simp add: console_log_def)
    then show ?thesis
      using new more(2) by (intro exI [of _ "new @ more"]) auto
  qed
qed

lemma model_loop_alt_requests:
  "\<exists>new. requests (snd (model_loop_alt T parse key topic ms w)) = requests w @ new
     \<and> (ms \<noteq> [] \<longrightarrow> new \<noteq> []) \<and> (\<forall>r \<in> set new. prompt_topic r = topic)"
proof (induction ms arbitrary: w)
  case Nil
  then show ?case by simp
next
  case (Cons m ms)
  obtain res w1 where a: "attempt_alt T parse key topic m w = (res, w1)"
    by (cases "attempt_alt T parse key topic m w")
  from attempt_alt_effects [of T parse key topic m w] a
  obtain new where new: "requests w1 = requests w @ new" "new \<noteq> []"
    "\<forall>r \<in> set new. prompt_topic r = topic"
    by auto
  show ?case
  proof (cases res)
    case (Inr v)
    with a new show ?thesis by auto
  next
    case (Inl e)
    from Cons.IH [of "console_log (FailedWarn m) w1"]
    obtain more where more: "requests (snd (model_loop_alt T parse key topic ms (console_log (FailedWarn m) w1)))
        = requests (console_log (FailedWarn m) w1) @ more" "\<forall>r \<in> set more. prompt_topic r = topic"
      by auto
    have "requests (snd (model_loop_alt T parse key topic (m # ms) w)) = requests w @ (new @ more)"
      using a Inl more(1) new(1) by (simp add: console_log_def)
    then show ?thesis
      using new more(2) by (intro exI [of _ "new @ more"]) auto
  qed
qed


lemma generate_requests:
  "\<exists>new. requests (snd (generate T parse API_KEY req_body w)) = requests w @ new
     \<and> (\<forall>r \<in> set new. select_topic req_body = Inr (prompt_topic r) \<and> truthy (prompt_topic r))
     \<and> (\<forall>topic. select_topic req_body = Inr topic \<and> truthy topic \<and> \<not> key_missing API_KEY
            \<and> \<not> to_string_throws topic \<longrightarrow> new \<noteq> [])"
proof (cases "select_topic req_body")
  case (Inl e)
  then show ?thesis
    by (simp add: generate_def generate_try_def console_log_def)
next
  case (Inr topic)
  show ?thesis
  proof (cases "key_missing API_KEY \<or> \<not> truthy topic \<or> to_string_throws topic")
    case True
    with Inr show ?thesis
      by (auto simp: generate_def generate_try_def console_log_def)
  next
    case False
    from model_loop_requests [of T parse API_KEY topic MODELS w]
    obtain new where new: "requests (snd (model_loop T parse API_KEY topic MODELS w)) = requests w @ new"
      "new \<noteq> []" "\<forall>r \<in> set new. prompt_topic r = topic"
      by (auto simp: MODELS_def)
    have "requests (snd (generate T parse API_KEY req_body w)) = requests w @ new"
      using Inr False new(1)
      by (auto simp: generate_def generate_try_def console_log_def split: prod.splits)
    then show ?thesis
      using new Inr False by (intro exI [of _ new]) auto
  qed
qed

lemma generate_alt_requests:
  "\<exists>new. requests (snd (generate_alt T parse API_KEY req_body w)) = requests w @ new
     \<and> (\<forall>r \<in> set new. select_topic req_body = Inr (prompt_topic r) \<and> truthy (prompt_topic r))
     \<and> (\<forall>topic. select_topic req_body = Inr topic \<and> truthy topic \<and> \<not> key_missing API_KEY
            \<and> \<not> to_string_throws topic \<longrightarrow> new \<noteq> [])"
proof (cases "select_topic req_body")
  case (Inl e)
  then show ?thesis
    by (simp add: generate_alt_def generate_alt_try_def)
next
  case (Inr topic)
  show ?thesis
  proof (cases "key_missing API_KEY \<or> \<not> truthy topic \<or> to_string_throws topic")
    case True
    with Inr show ?thesis
      by (auto simp: generate_alt_def generate_alt_try_def)
  next
    case False
    from model_loop_alt_requests [of T parse API_KEY topic MODELS_alt w]
    obtain new where new: "requests (snd (model_loop_alt T parse API_KEY topic MODELS_alt w)) = requests w @ new"
      "new \<noteq> []" "\<forall>r \<in> set new. prompt_topic r = topic"
      by (auto simp: MODELS_alt_def)
    have "requests (snd (generate_alt T parse API_KEY req_body w)) = requests w @ new"
      using Inr False new(1)
      by (auto simp: generate_alt_def generate_alt_try_def split: prod.splits)
    then show ?thesis
      using new Inr False by (intro exI [of _ new]) auto
  qed
qed

text \<open>
  C8, as the code has it. The handler tests the selected value for truthiness, not for
  being a string. When the value selected from \<open>topic\<close>, or from \<open>prompt\<close> when \<open>topic\<close> is
  falsy, is itself falsy (\<open>undefined\<close>, \<open>null\<close>, \<open>false\<close>, zero or the empty string), the
  request is rejected before any outbound call: with 400, or with 503 when the credential
  is missing. Every outbound request carries the selected value, and that value is
  truthy. A truthy value that is not a string passes the guard. When it converts to a
  string for the prompt, as \<open>true\<close>, a number or an object without a \<open>toString\<close> property
  do, and the credential is configured, at least one outbound request is issued for it.
  When the conversion throws, the request ends with 503 and no outbound request.
\<close>

theorem generate_topic_guard:
  "(select_topic req_body = Inr topic \<and> \<not> truthy topic
      \<longrightarrow> snd (generate_alt T parse API_KEY req_body w) = w
        \<and> requests (snd (generate T parse API_KEY req_body w)) = requests w
        \<and> code (fst (generate T parse API_KEY req_body w)) = (if key_missing API_KEY then 503 else 400)
        \<and> code (fst (generate_alt T parse API_KEY req_body w)) = (if key_missing API_KEY then 503 else 400))
   \<and> (\<forall>r \<in> set (drop (length (requests w)) (requests (snd (generate T parse API_KEY req_body w)))).
         select_topic req_body = Inr (prompt_topic r) \<and> truthy (prompt_topic r))
   \<and> (\<forall>r \<in> set (drop (length (requests w)) (requests (snd (generate_alt T parse API_KEY req_body w)))).
         select_topic req_body = Inr (prompt_topic r) \<and> truthy (prompt_topic r))
   \<and> (select_topic req_body = Inr topic \<and> truthy topic \<and> \<not> key_missing API_KEY
        \<and> \<not> to_string_throws topic
      \<longrightarrow> requests (snd (generate T parse API_KEY req_body w)) \<noteq> requests w
        \<and> requests (snd (generate_alt T parse API_KEY req_body w)) \<noteq> requests w)
   \<and> (select_topic req_body = Inr topic \<and> truthy topic \<and> to_string_throws topic
      \<longrightarrow> snd (generate_alt T parse API_KEY req_body w) = w
        \<and> requests (snd (generate T parse API_KEY req_body w)) = requests w
        \<and> code (fst (generate T parse API_KEY req_body w)) = 503
        \<and> code (fst (generate_alt T parse API_KEY req_body w)) = 503)"
proof (intro conjI impI)
  assume h: "select_topic req_body = Inr topic \<and> \<not> truthy topic"
  then show "snd (generate_alt T parse API_KEY req_body w) = w"
    by (simp add: generate_alt_def generate_alt_try_def)
  from h show "requests (snd (generate T parse API_KEY req_body w)) = requests w"
    by (simp add: generate_def generate_try_def console_log_def)
  from h show "code (fst (generate T parse API_KEY req_body w)) = (if key_missing API_KEY then 503 else 400)"
    by (simp add: generate_def generate_try_def)
  from h show "code (fst (generate_alt T parse API_KEY req_body w)) = (if key_missing API_KEY then 503 else 400)"
    by (simp add: generate_alt_def generate_alt_try_def)
next
  from generate_requests [of T parse API_KEY req_body w]
  show "\<forall>r \<in> set (drop (length (requests w)) (requests (snd (generate T parse API_KEY req_body w)))).
         select_topic req_body = Inr (prompt_topic r) \<and> truthy (prompt_topic r)"
    by auto
  from generate_alt_requests [of T parse API_KEY req_body w]
  show "\<forall>r \<in> set (drop (length (requests w)) (requests (snd (generate_alt T parse API_KEY req_body w)))).
         select_topic req_body = Inr (prompt_topic r) \<and> truthy (prompt_topic r)"
    by auto
next
  assume h: "select_topic req_body = Inr topic \<and> truthy topic \<and> \<not> key_missing API_KEY
        \<and> \<not> to_string_throws topic"
  with generate_requests [of T parse API_KEY req_body w]
  show "requests (snd (generate T parse API_KEY req_body w)) \<noteq> requests w"
    by auto
  from h generate_alt_requests [of T parse API_KEY req_body w]
  show "requests (snd (generate_alt T parse API_KEY req_body w)) \<noteq> requests w"
    by auto
next
  assume h: "select_topic req_body = Inr topic \<and> truthy topic \<and> to_string_throws topic"
  then show "snd (generate_alt T parse API_KEY req_body w) = w"
    by (simp add: generate_alt_def generate_alt_try_def)
  from h show "requests (snd (generate T parse API_KEY req_body w)) = requests w"
    by (simp add: generate_def generate_try_def console_log_def)
  from h show "code (fst (generate T parse API_KEY req_body w)) = 503"
    by (simp add: generate_def generate_try_def)
  from h show "code (fst (generate_alt T parse API_KEY req_body w)) = 503"
    by (simp add: generate_alt_def generate_alt_try_def)
qed

theorem generate_topic_guard_witness:
  "(select_topic (Object [(''topic'', String [])]) = Inr Undefined \<and> \<not> truthy Undefined)
   \<and> snd (generate_alt (always_status 500 ''no'') JSON_parse (Some ''k'')
           (Object [(''topic'', String [])]) empty_world) = empty_world
   \<and> requests (snd (generate (always_status 500 ''no'') JSON_parse (Some ''k'')
           (Object [(''topic'', String [])]) empty_world)) = requests empty_world
   \<and> code (fst (generate (always_status 500 ''no'') JSON_parse (Some ''k'')
           (Object [(''topic'', String [])]) empty_world)) = 400
   \<and> code (fst (generate_alt (always_status 500 ''no'') JSON_parse (Some ''k'')
           (Object [(''topic'', String [])]) empty_world)) = 400
   \<and> (select_topic (Object [(''prompt'', String ''cats'')]) = Inr (String ''cats'')
        \<and> truthy (String ''cats'') \<and> \<not> key_missing (Some ''k'')
        \<and> \<not> to_string_throws (String ''cats''))
   \<and> requests (snd (generate (always_status 500 ''no'') JSON_parse (Some ''k'')
           (Object [(''prompt'', String ''cats'')]) empty_world)) \<noteq> requests empty_world
   \<and> requests (snd (generate_alt (always_status 500 ''no'') JSON_parse (Some ''k'')
           (Object [(''prompt'', String ''cats'')]) empty_world)) \<noteq> requests empty_world
   \<and> (select_topic (Object [(''topic'', Object [(''toString'', Number 1 0)])])
          = Inr (Object [(''toString'', Number 1 0)])
        \<and> truthy (Object [(''toString'', Number 1 0)])
        \<and> to_string_throws (Object [(''toString'', Number 1 0)]))
   \<and> requests (snd (generate (always_status 500 ''no'') JSON_parse (Some ''k'')
           (Object [(''topic'', Object [(''toString'', Number 1 0)])]) empty_world))
       = requests empty_world
   \<and> code (fst (generate (always_status 500 ''no'') JSON_parse (Some ''k'')
           (Object [(''topic'', Object [(''toString'', Number 1 0)])]) empty_world)) = 503
   \<and> snd (generate_alt (always_status 500 ''no'') JSON_parse (Some ''k'')
           (Object [(''topic'', Object [(''toString'', Number 1 0)])]) empty_world) = empty_world
   \<and> code (fst (generate_alt (always_status 500 ''no'') JSON_parse (Some ''k'')
           (Object [(''topic'', Object [(''toString'', Number 1 0)])]) empty_world)) = 503"
proof -
  have h1: "select_topic (Object [(''topic'', String [])]) = Inr Undefined \<and> \<not> truthy Undefined"
    by (simp add: select_topic_def)
  have h2: "select_topic (Object [(''prompt'', String ''cats'')]) = Inr (String ''cats'')
        \<and> truthy (String ''cats'') \<and> \<not> key_missing (Some ''k'')
        \<and> \<not> to_string_throws (String ''cats'')"
    by (simp add: select_topic_def key_missing_def)
  have h3: "select_topic (Object [(''topic'', Object [(''toString'', Number 1 0)])])
          = Inr (Object [(''toString'', Number 1 0)])
        \<and> truthy (Object [(''toString'', Number 1 0)])
        \<and> to_string_throws (Object [(''toString'', Number 1 0)])"
    by (simp add: select_topic_def)
  have k: "(if key_missing (Some ''k'') then 503 else 400) = (400 :: nat)"
    by (simp add: key_missing_def)
  from h1 h2 h3
    generate_topic_guard [of "Object [(''topic'', String [])]" Undefined "always_status 500 ''no''"
      JSON_parse "Some ''k''" empty_world]
    generate_topic_guard [of "Object [(''prompt'', String ''cats'')]" "String ''cats''"
      "always_status 500 ''no''" JSON_parse "Some ''k''" empty_world]
    generate_topic_guard [of "Object [(''topic'', Object [(''toString'', Number 1 0)])]"
      "Object [(''toString'', Number 1 0)]"
      "always_status 500 ''no''" JSON_parse "Some ''k''" empty_world]
  show ?thesis
    unfolding k by blast
qed

text \<open>
  The claim as stated fails: the topic \<open>true\<close> is not a string, and it is sent to every
  model.
\<close>

theorem generate_non_string_topic_counterexample:
  "select_topic (Object [(''topic'', Bool True)]) = Inr (Bool True)
   \<and> map prompt_topic (requests (snd (generate (always_status 500 ''no'') JSON_parse (Some ''k'')
         (Object [(''topic'', Bool True)]) empty_world)))
       = [Bool True, Bool True, Bool True, Bool True]
   \<and> map prompt_topic (requests (snd (generate_alt (always_status 500 ''no'') JSON_parse (Some ''k'')
         (Object [(''topic'', Bool True)]) empty_world)))
       = [Bool True, Bool True, Bool True]"
  by code_simp


text \<open>
  C3. The claim says the endpoint fails with the "all models" error only when every model
  has failed. It does not hold for the provider text \<open>}0{\<close>. The first \<open>{\<close> comes after the
  last \<open>}\<close>, \<open>substring\<close> swaps its arguments, \<open>0\<close> is parsed, and the attempt of the first
  model succeeds with the value \<open>0\<close>: \<open>src/server.js\<close> writes "Success using model" and
  leaves the loop. Then \<open>!finalResponse\<close> holds of \<open>0\<close>, and the endpoint answers 503 with
  the "all models" error after one request to one model. \<open>src/unnamed/part_000\<close> does the
  same.
\<close>

theorem generate_falsy_extraction:
  "generate (always_status 200 (envelope_of ''}0{'')) JSON_parse (Some ''k'')
       (Object [(''topic'', String ''cats'')]) empty_world
     = (\<lparr>code = 503,
         payload = ErrorBody (Error ''All Gemini models are unavailable or quota exhausted.'')\<rparr>,
        \<lparr>requests = [\<lparr>url = api_url ''gemini-3.0'' (Some ''k''), prompt_topic = String ''cats'',
                      safety_settings = True\<rparr>],
         sleeps = [],
         console = [Trying ''gemini-3.0'', Succeeded ''gemini-3.0'',
                    GenerationError (Error ''All Gemini models are unavailable or quota exhausted.'')]\<rparr>)
   \<and> generate_alt (always_status 200 (envelope_of ''}0{'')) JSON_parse (Some ''k'')
       (Object [(''topic'', String ''cats'')]) empty_world
     = (\<lparr>code = 503,
         payload = ErrorBody (Error ''All Gemini models unavailable or quota exhausted'')\<rparr>,
        \<lparr>requests = [\<lparr>url = api_url ''gemini-2.5-flash-lite'' (Some ''k''),
                      prompt_topic = String ''cats'', safety_settings = False\<rparr>],
         sleeps = [], console = []\<rparr>)
   \<and> attempt (always_status 200 (envelope_of ''}0{'')) JSON_parse (Some ''k'') (String ''cats'')
       ''gemini-3.0'' empty_world
     = (Inr (Number 0 0),
        \<lparr>requests = [\<lparr>url = api_url ''gemini-3.0'' (Some ''k''), prompt_topic = String ''cats'',
                      safety_settings = True\<rparr>],
         sleeps = [], console = []\<rparr>)"
  by code_simp


section \<open>The loop over the models\<close>

text \<open>
  The console is written and never read: two worlds with the same requests and the same
  sleeps give \<open>fetchWithRetry\<close>, and so an attempt, the same result and the same new
  requests and sleeps.
\<close>

lemma fetchWithRetry_from_same:
  "requests w = requests w' \<Longrightarrow> sleeps w = sleeps w' \<Longrightarrow>
   fst (fetchWithRetry_from T req retries delay i w) = fst (fetchWithRetry_from T req retries delay i w')
   \<and> requests (snd (fetchWithRetry_from T req retries delay i w))
       = requests (snd (fetchWithRetry_from T req retries delay i w'))
   \<and> sleeps (snd (fetchWithRetry_from T req retries delay i w))
       = sleeps (snd (fetchWithRetry_from T req retries delay i w'))"
proof (induction T req retries delay i w arbitrary: w' rule: fetchWithRetry_from.induct)
  case (1 T req retries delay i w)
  note eq = "1.prems"
  show ?case
  proof (cases "i < retries")
    case False
    with eq show ?thesis
      by (simp add: fetchWithRetry_from.simps [of T req retries delay i w]
          fetchWithRetry_from.simps [of T req retries delay i w'])
  next
    case True
    show ?thesis
    proof (cases "T (length (requests w)) req")
      case Rejected
      with True eq show ?thesis
        by (simp add: fetchWithRetry_from.simps [of T req retries delay i w]
            fetchWithRetry_from.simps [of T req retries delay i w'] fetch_def)
    next
      case (Replied r)
      show ?thesis
      proof (cases "\<not> ok r \<and> status r \<noteq> 429 \<and> status r = 503")
        case False
        with True Replied eq show ?thesis
          by (auto simp: fetchWithRetry_from.simps [of T req retries delay i w]
              fetchWithRetry_from.simps [of T req retries delay i w'] fetch_def console_log_def)
      next
        case busy: True
        let ?w1 = "w\<lparr>requests := requests w @ [req]\<rparr>"
        let ?w2 = "sleep delay (console_log (Overloaded (i + 1) retries) ?w1)"
        let ?v1 = "w'\<lparr>requests := requests w' @ [req]\<rparr>"
        let ?v2 = "sleep delay (console_log (Overloaded (i + 1) retries) ?v1)"
        have f: "fetch T req w = (Replied r, ?w1)"
          using Replied by (simp add: fetch_def)
        have g: "fetch T req w' = (Replied r, ?v1)"
          using Replied eq by (simp add: fetch_def)
        have step: "fetchWithRetry_from T req retries delay i w
            = fetchWithRetry_from T req retries delay (i + 1) ?w2"
          using True busy f by (simp add: fetchWithRetry_from.simps [of T req retries delay i w])
        have step': "fetchWithRetry_from T req retries delay i w'
            = fetchWithRetry_from T req retries delay (i + 1) ?v2"
          using True busy g by (simp add: fetchWithRetry_from.simps [of T req retries delay i w'])
        have e2: "requests ?w2 = requests ?v2" "sleeps ?w2 = sleeps ?v2"
          using eq by (simp_all add: sleep_def console_log_def)
        from busy have b: "\<not> ok r" "status r \<noteq> 429" "status r = 503"
          by simp_all
        show ?thesis
          unfolding step step'
          by (rule "1.IH" [OF True f [symmetric] refl b e2])
      qed
    qed
  qed
qed

lemma fetchWithRetry_alt_from_same:
  "requests w = requests w' \<Longrightarrow> sleeps w = sleeps w' \<Longrightarrow>
   fst (fetchWithRetry_alt_from T req retries delay i w) = fst (fetchWithRetry_alt_from T req retries delay i w')
   \<and> requests (snd (fetchWithRetry_alt_from T req retries delay i w))
       = requests (snd (fetchWithRetry_alt_from T req retries delay i w'))
   \<and> sleeps (snd (fetchWithRetry_alt_from T req retries delay i w))
       = sleeps (snd (fetchWithRetry_alt_from T req retries delay i w'))"
proof (induction T req retries delay i w arbitrary: w' rule: fetchWithRetry_alt_from.induct)
  case (1 T req retries delay i w)
  note eq = "1.prems"
  show ?case
  proof (cases "i < retries")
    case False
    with eq show ?thesis
      by (simp add: fetchWithRetry_alt_from.simps [of T req retries delay i w]
          fetchWithRetry_alt_from.simps [of T req retries delay i w'])
  next
    case True
    show ?thesis
    proof (cases "T (length (requests w)) req")
      case Rejected
      with True eq show ?thesis
        by (simp add: fetchWithRetry_alt_from.simps [of T req retries delay i w]
            fetchWithRetry_alt_from.simps [of T req retries delay i w'] fetch_def)
    next
      case (Replied r)
      show ?thesis
      proof (cases "\<not> ok r \<and> status r \<noteq> 429 \<and> status r = 503")
        case False
        with True Replied eq show ?thesis
          by (auto simp: fetchWithRetry_alt_from.simps [of T req retries delay i w]
              fetchWithRetry_alt_from.simps [of T req retries delay i w'] fetch_def console_log_def)
      next
        case busy: True
        let ?w1 = "w\<lparr>requests := requests w @ [req]\<rparr>"
        let ?w2 = "sleep delay ?w1"
        let ?v1 = "w'\<lparr>requests := requests w' @ [req]\<rparr>"
        let ?v2 = "sleep delay ?v1"
        have f: "fetch T req w = (Replied r, ?w1)"
          using Replied by (simp add: fetch_def)
        have g: "fetch T req w' = (Replied r, ?v1)"
          using Replied eq by (simp add: fetch_def)
        have step: "fetchWithRetry_alt_from T req retries delay i w
            = fetchWithRetry_alt_from T req retries delay (i + 1) ?w2"
          using True busy f by (simp add: fetchWithRetry_alt_from.simps [of T req retries delay i w])
        have step': "fetchWithRetry_alt_from T req retries delay i w'
            = fetchWithRetry_alt_from T req retries delay (i + 1) ?v2"
          using True busy g by (simp add: fetchWithRetry_alt_from.simps [of T req retries delay i w'])
        have e2: "requests ?w2 = requests ?v2" "sleeps ?w2 = sleeps ?v2"
          using eq by (simp_all add: sleep_def console_log_def)
        from busy have b: "\<not> ok r" "status r \<noteq> 429" "status r = 503"
          by simp_all
        show ?thesis
          unfolding step step'
          by (rule "1.IH" [OF True f [symmetric] refl b e2])
      qed
    qed
  qed
qed


lemma attempt_same:
  assumes "requests w = requests w'" "sleeps w = sleeps w'"
  shows "fst (attempt T parse key topic model w) = fst (attempt T parse key topic model w')
   \<and> requests (snd (attempt T parse key topic model w))
       = requests (snd (attempt T parse key topic model w'))
   \<and> sleeps (snd (attempt T parse key topic model w))
       = sleeps (snd (attempt T parse key topic model w'))"
proof -
  let ?req = "\<lparr>url = api_url model key, prompt_topic = topic, safety_settings = True\<rparr>"
  note s = fetchWithRetry_from_same [OF assms, of T ?req 3 2000 0, folded fetchWithRetry_def]
  have "fst (attempt T parse key topic model w) = fst (attempt T parse key topic model w')"
    using s by (auto simp: attempt_def split: prod.splits sum.splits option.splits)
  then show ?thesis
    using s by (simp add: attempt_world)
qed

lemma attempt_alt_same:
  assumes "requests w = requests w'" "sleeps w = sleeps w'"
  shows "fst (attempt_alt T parse key topic model w) = fst (attempt_alt T parse key topic model w')
   \<and> requests (snd (attempt_alt T parse key topic model w))
       = requests (snd (attempt_alt T parse key topic model w'))
   \<and> sleeps (snd (attempt_alt T parse key topic model w))
       = sleeps (snd (attempt_alt T parse key topic model w'))"
proof -
  let ?req = "\<lparr>url = api_url model key, prompt_topic = topic, safety_settings = False\<rparr>"
  note s = fetchWithRetry_alt_from_same [OF assms, of T ?req 3 2000 0, folded fetchWithRetry_alt_def]
  have "fst (attempt_alt T parse key topic model w) = fst (attempt_alt T parse key topic model w')"
    using s by (auto simp: attempt_alt_def split: prod.splits sum.splits option.splits)
  then show ?thesis
    using s by (simp add: attempt_alt_world)
qed

lemma model_loop_once_each:
  assumes "\<forall>m \<in> set before. \<forall>w. \<exists>e. fst (attempt T parse key topic m w) = Inl e"
    and "\<forall>w. fst (attempt T parse key topic model w) = Inr v"
    and "requests w = requests w'" "sleeps w = sleeps w'"
  shows "requests (snd (model_loop T parse key topic (before @ model # after) w))
        = requests (attempt_each_once (attempt T parse key topic) (before @ [model]) w')
    \<and> sleeps (snd (model_loop T parse key topic (before @ model # after) w))
        = sleeps (attempt_each_once (attempt T parse key topic) (before @ [model]) w')"
  using assms(1,3,4)
proof (induction before arbitrary: w w')
  case Nil
  let ?w0 = "console_log (Trying model) w"
  obtain w1 where a: "attempt T parse key topic model ?w0 = (Inr v, w1)"
    using assms(2) by (metis fst_conv surj_pair)
  have "requests ?w0 = requests w'" "sleeps ?w0 = sleeps w'"
    using Nil.prems by (simp_all add: console_log_def)
  from attempt_same [OF this, of T parse key topic model] a
  have x: "requests w1 = requests (snd (attempt T parse key topic model w'))"
    "sleeps w1 = sleeps (snd (attempt T parse key topic model w'))"
    by simp_all
  have step: "model_loop T parse key topic ([] @ model # after) w = (v, console_log (Succeeded model) w1)"
    using a by simp
  show ?case
    unfolding step using x by (simp add: console_log_def)
next
  case (Cons m ms)
  let ?w0 = "console_log (Trying m) w"
  obtain e w1 where a: "attempt T parse key topic m ?w0 = (Inl e, w1)"
    using Cons.prems(1) by (metis fst_conv list.set_intros(1) surj_pair)
  have "requests ?w0 = requests w'" "sleeps ?w0 = sleeps w'"
    using Cons.prems by (simp_all add: console_log_def)
  from attempt_same [OF this, of T parse key topic m] a
  have n: "requests (console_log (Failed m e) w1) = requests (snd (attempt T parse key topic m w'))"
    "sleeps (console_log (Failed m e) w1) = sleeps (snd (attempt T parse key topic m w'))"
    by (simp_all add: console_log_def)
  have r: "\<forall>m \<in> set ms. \<forall>w. \<exists>e. fst (attempt T parse key topic m w) = Inl e"
    using Cons.prems(1) by simp
  have step: "model_loop T parse key topic ((m # ms) @ model # after) w
      = model_loop T parse key topic (ms @ model # after) (console_log (Failed m e) w1)"
    using a by simp
  show ?case
    unfolding step using Cons.IH [OF r n] by simp
qed

lemma model_loop_alt_once_each:
  assumes "\<forall>m \<in> set before. \<forall>w. \<exists>e. fst (attempt_alt T parse key topic m w) = Inl e"
    and "\<forall>w. fst (attempt_alt T parse key topic model w) = Inr v"
    and "requests w = requests w'" "sleeps w = sleeps w'"
  shows "requests (snd (model_loop_alt T parse key topic (before @ model # after) w))
        = requests (attempt_each_once (attempt_alt T parse key topic) (before @ [model]) w')
    \<and> sleeps (snd (model_loop_alt T parse key topic (before @ model # after) w))
        = sleeps (attempt_each_once (attempt_alt T parse key topic) (before @ [model]) w')"
  using assms(1,3,4)
proof (induction before arbitrary: w w')
  case Nil
  obtain w1 where a: "attempt_alt T parse key topic model w = (Inr v, w1)"
    using assms(2) by (metis fst_conv surj_pair)
  from attempt_alt_same [OF Nil.prems(2,3), of T parse key topic model] a
  have x: "requests w1 = requests (snd (attempt_alt T parse key topic model w'))"
    "sleeps w1 = sleeps (snd (attempt_alt T parse key topic model w'))"
    by simp_all
  have step: "model_loop_alt T parse key topic ([] @ model # after) w = (v, w1)"
    using a by simp
  show ?case
    unfolding step using x by simp
next
  case (Cons m ms)
  obtain e w1 where a: "attempt_alt T parse key topic m w = (Inl e, w1)"
    using Cons.prems(1) by (metis fst_conv list.set_intros(1) surj_pair)
  from attempt_alt_same [OF Cons.prems(2,3), of T parse key topic m] a
  have n: "requests (console_log (FailedWarn m) w1) = requests (snd (attempt_alt T parse key topic m w'))"
    "sleeps (console_log (FailedWarn m) w1) = sleeps (snd (attempt_alt T parse key topic m w'))"
    by (simp_all add: console_log_def)
  have r: "\<forall>m \<in> set ms. \<forall>w. \<exists>e. fst (attempt_alt T parse key topic m w) = Inl e"
    using Cons.prems(1) by simp
  have step: "model_loop_alt T parse key topic ((m # ms) @ model # after) w
      = model_loop_alt T parse key topic (ms @ model # after) (console_log (FailedWarn m) w1)"
    using a by simp
  show ?case
    unfolding step using Cons.IH [OF r n] by simp
qed

text \<open>
  When every model of \<open>before\<close> fails and \<open>model\<close> returns a value, whatever the state of
  the world, the requests issued and the delays slept by the loop are those of one attempt
  of each model of \<open>before\<close> and of \<open>model\<close>, in order; the loop returns the value of
  \<open>model\<close>, has announced these models in order, each once, and does what it would do if
  the list ended at \<open>model\<close>.
\<close>

lemma attempt_tried:
  "tried (console (snd (attempt T parse key topic model w))) = tried (console w)"
  using attempt_effects [of T parse key topic model w] by blast

lemma attempt_alt_console:
  "console (snd (attempt_alt T parse key topic model w)) = console w"
  using attempt_alt_effects [of T parse key topic model w] by blast

lemma model_loop_first_success:
  assumes "\<forall>m \<in> set before. \<forall>w. \<exists>e. fst (attempt T parse key topic m w) = Inl e"
    and "\<forall>w. fst (attempt T parse key topic model w) = Inr v"
  shows "fst (model_loop T parse key topic (before @ model # after) w) = v
    \<and> tried (console (snd (model_loop T parse key topic (before @ model # after) w)))
        = tried (console w) @ before @ [model]
    \<and> model_loop T parse key topic (before @ model # after) w
        = model_loop T parse key topic (before @ [model]) w"
  using assms(1)
proof (induction before arbitrary: w)
  case Nil
  let ?w0 = "console_log (Trying model) w"
  obtain w1 where a: "attempt T parse key topic model ?w0 = (Inr v, w1)"
    using assms(2) by (metis fst_conv surj_pair)
  have "tried (console w1) = tried (console ?w0)"
    using attempt_tried [of T parse key topic model ?w0] a by simp
  then show ?case
    using a by (simp add: console_log_def tried_append)
next
  case (Cons m ms)
  let ?w0 = "console_log (Trying m) w"
  obtain e w1 where a: "attempt T parse key topic m ?w0 = (Inl e, w1)"
    using Cons.prems by (metis fst_conv list.set_intros(1) surj_pair)
  have t: "tried (console w1) = tried (console ?w0)"
    using attempt_tried [of T parse key topic m ?w0] a by simp
  have "\<forall>m \<in> set ms. \<forall>w. \<exists>e. fst (attempt T parse key topic m w) = Inl e"
    using Cons.prems by simp
  note ih = Cons.IH [OF this, of "console_log (Failed m e) w1"]
  have step: "model_loop T parse key topic ((m # ms) @ rest) w
      = model_loop T parse key topic (ms @ rest) (console_log (Failed m e) w1)" for rest
    using a by simp
  have c: "tried (console (console_log (Failed m e) w1)) = tried (console w) @ [m]"
    using t by (simp add: console_log_def tried_append)
  from ih have i1: "fst (model_loop T parse key topic (ms @ model # after) (console_log (Failed m e) w1)) = v"
    and i2: "tried (console (snd (model_loop T parse key topic (ms @ model # after) (console_log (Failed m e) w1))))
        = tried (console (console_log (Failed m e) w1)) @ ms @ [model]"
    and i3: "model_loop T parse key topic (ms @ model # after) (console_log (Failed m e) w1)
        = model_loop T parse key topic (ms @ [model]) (console_log (Failed m e) w1)"
    by blast+
  show ?case
    unfolding step
  proof (intro conjI)
    show "fst (model_loop T parse key topic (ms @ model # after) (console_log (Failed m e) w1)) = v"
      by (rule i1)
    show "tried (console (snd (model_loop T parse key topic (ms @ model # after) (console_log (Failed m e) w1))))
        = tried (console w) @ (m # ms) @ [model]"
      unfolding i2 c by simp
    show "model_loop T parse key topic (ms @ model # after) (console_log (Failed m e) w1)
        = model_loop T parse key topic (ms @ [model]) (console_log (Failed m e) w1)"
      by (rule i3)
  qed
qed

lemma model_loop_alt_first_success:
  assumes "\<forall>m \<in> set before. \<forall>w. \<exists>e. fst (attempt_alt T parse key topic m w) = Inl e"
    and "\<forall>w. fst (attempt_alt T parse key topic model w) = Inr v"
  shows "fst (model_loop_alt T parse key topic (before @ model # after) w) = v
    \<and> warned (console (snd (model_loop_alt T parse key topic (before @ model # after) w)))
        = warned (console w) @ before
    \<and> model_loop_alt T parse key topic (before @ model # after) w
        = model_loop_alt T parse key topic (before @ [model]) w"
  using assms(1)
proof (induction before arbitrary: w)
  case Nil
  obtain w1 where a: "attempt_alt T parse key topic model w = (Inr v, w1)"
    using assms(2) by (metis fst_conv surj_pair)
  have "console w1 = console w"
    using attempt_alt_console [of T parse key topic model w] a by simp
  then show ?case
    using a by simp
next
  case (Cons m ms)
  obtain e w1 where a: "attempt_alt T parse key topic m w = (Inl e, w1)"
    using Cons.prems by (metis fst_conv list.set_intros(1) surj_pair)
  have t: "console w1 = console w"
    using attempt_alt_console [of T parse key topic m w] a by simp
  have "\<forall>m \<in> set ms. \<forall>w. \<exists>e. fst (attempt_alt T parse key topic m w) = Inl e"
    using Cons.prems by simp
  note ih = Cons.IH [OF this, of "console_log (FailedWarn m) w1"]
  have step: "model_loop_alt T parse key topic ((m # ms) @ rest) w
      = model_loop_alt T parse key topic (ms @ rest) (console_log (FailedWarn m) w1)" for rest
    using a by simp
  have c: "warned (console (console_log (FailedWarn m) w1)) = warned (console w) @ [m]"
    using t by (simp add: console_log_def warned_append)
  from ih have i1: "fst (model_loop_alt T parse key topic (ms @ model # after) (console_log (FailedWarn m) w1)) = v"
    and i2: "warned (console (snd (model_loop_alt T parse key topic (ms @ model # after) (console_log (FailedWarn m) w1))))
        = warned (console (console_log (FailedWarn m) w1)) @ ms"
    and i3: "model_loop_alt T parse key topic (ms @ model # after) (console_log (FailedWarn m) w1)
        = model_loop_alt T parse key topic (ms @ [model]) (console_log (FailedWarn m) w1)"
    by blast+
  show ?case
    unfolding step
  proof (intro conjI)
    show "fst (model_loop_alt T parse key topic (ms @ model # after) (console_log (FailedWarn m) w1)) = v"
      by (rule i1)
    show "warned (console (snd (model_loop_alt T parse key topic (ms @ model # after) (console_log (FailedWarn m) w1))))
        = warned (console w) @ (m # ms)"
      unfolding i2 c by simp
    show "model_loop_alt T parse key topic (ms @ model # after) (console_log (FailedWarn m) w1)
        = model_loop_alt T parse key topic (ms @ [model]) (console_log (FailedWarn m) w1)"
      by (rule i3)
  qed
qed

lemma generate_success:
  "select_topic req_body = Inr topic \<Longrightarrow> truthy topic \<Longrightarrow> \<not> key_missing key \<Longrightarrow>
   \<not> to_string_throws topic \<Longrightarrow> fst (model_loop T parse key topic MODELS w) = v \<Longrightarrow> truthy v \<Longrightarrow>
   fst (generate T parse key req_body w) = \<lparr>code = 200, payload = JsonBody v\<rparr>"
  by (auto simp: generate_def generate_try_def split: prod.splits)

lemma generate_alt_success:
  "select_topic req_body = Inr topic \<Longrightarrow> truthy topic \<Longrightarrow> \<not> key_missing key \<Longrightarrow>
   \<not> to_string_throws topic \<Longrightarrow> fst (model_loop_alt T parse key topic MODELS_alt w) = v \<Longrightarrow> truthy v \<Longrightarrow>
   fst (generate_alt T parse key req_body w) = \<lparr>code = 200, payload = JsonBody v\<rparr>"
  by (auto simp: generate_alt_def generate_alt_try_def split: prod.splits)

text \<open>
  Facts about the example inputs.
\<close>

lemma parse_site_envelope: "JSON_parse (envelope_of sample_site_text) = Some (envelope_value sample_site_text)"
  by code_simp

lemma extract_site: "extractJSON JSON_parse (String sample_site_text) = Inr (Object sample_site)"
  "extractJSON_alt JSON_parse (String sample_site_text) = Inr (Object sample_site)"
  by code_simp+

lemma index_of_key_0: "index_of_key ''0'' = Some 0"
  by code_simp

lemma read_envelope_value: "read_path (envelope_value s) text_path = Inr (String s)"
  "opt_path (envelope_value s) text_path = String s"
  by (simp_all add: envelope_value_def text_path_def opt_prop_def index_of_key_0)

lemma site_text_nonempty: "sample_site_text \<noteq> []"
  by (simp add: sample_site_text_def)

lemma fetch_only_model:
  "fetchWithRetry (only_model m reply) \<lparr>url = api_url m (Some ''k''), prompt_topic = t, safety_settings = b\<rparr>
      3 2000 w
     = (Inr \<lparr>status = 200, body = reply\<rparr>,
        w\<lparr>requests := requests w
             @ [\<lparr>url = api_url m (Some ''k''), prompt_topic = t, safety_settings = b\<rparr>]\<rparr>)"
  "fetchWithRetry_alt (only_model m reply) \<lparr>url = api_url m (Some ''k''), prompt_topic = t, safety_settings = b\<rparr>
      3 2000 w
     = (Inr \<lparr>status = 200, body = reply\<rparr>,
        w\<lparr>requests := requests w
             @ [\<lparr>url = api_url m (Some ''k''), prompt_topic = t, safety_settings = b\<rparr>]\<rparr>)"
  by (simp_all add: fetchWithRetry_def fetchWithRetry_alt_def fetchWithRetry_from.simps [of _ _ 3]
      fetchWithRetry_alt_from.simps [of _ _ 3] world_ops only_model_def)

lemma fetch_other_model:
  "m' \<noteq> m \<Longrightarrow>
   fst (fetchWithRetry (only_model m reply)
          \<lparr>url = api_url m' (Some ''k''), prompt_topic = t, safety_settings = b\<rparr> 3 2000 w)
     = Inl (Error (''Google API failed ('' @ string_of_nat 404 @ ''): model not found''))"
  "m' \<noteq> m \<Longrightarrow>
   fst (fetchWithRetry_alt (only_model m reply)
          \<lparr>url = api_url m' (Some ''k''), prompt_topic = t, safety_settings = b\<rparr> 3 2000 w)
     = Inl (Error (''Google API error '' @ string_of_nat 404))"
  by (simp_all add: fetchWithRetry_def fetchWithRetry_alt_def fetchWithRetry_from.simps [of _ _ 3]
      fetchWithRetry_alt_from.simps [of _ _ 3] world_ops only_model_def api_url_def
      del: string_of_nat.simps)

lemma attempt_only_model:
  "fst (attempt (only_model m (envelope_of sample_site_text)) JSON_parse (Some ''k'') t m w) = Inr (Object sample_site)"
  "fst (attempt_alt (only_model m (envelope_of sample_site_text)) JSON_parse (Some ''k'') t m w) = Inr (Object sample_site)"
  by (simp_all add: attempt_def attempt_alt_def fetch_only_model parse_site_envelope
      read_envelope_value extract_site site_text_nonempty del: extractJSON_alt.simps)

lemma attempt_other_model:
  "m' \<noteq> m \<Longrightarrow> \<exists>e. fst (attempt (only_model m reply) parse (Some ''k'') t m' w) = Inl e"
  "m' \<noteq> m \<Longrightarrow> \<exists>e. fst (attempt_alt (only_model m reply) parse (Some ''k'') t m' w) = Inl e"
proof -
  assume d: "m' \<noteq> m"
  obtain w1 where "fetchWithRetry (only_model m reply)
          \<lparr>url = api_url m' (Some ''k''), prompt_topic = t, safety_settings = True\<rparr> 3 2000 w
     = (Inl (Error (''Google API failed ('' @ string_of_nat 404 @ ''): model not found'')), w1)"
    using fetch_other_model(1) [OF d, of reply t True w] by (metis fst_conv surj_pair)
  then show "\<exists>e. fst (attempt (only_model m reply) parse (Some ''k'') t m' w) = Inl e"
    by (simp add: attempt_def)
  obtain w2 where "fetchWithRetry_alt (only_model m reply)
          \<lparr>url = api_url m' (Some ''k''), prompt_topic = t, safety_settings = False\<rparr> 3 2000 w
     = (Inl (Error (''Google API error '' @ string_of_nat 404)), w2)"
    using fetch_other_model(2) [OF d, of reply t False w] by (metis fst_conv surj_pair)
  then show "\<exists>e. fst (attempt_alt (only_model m reply) parse (Some ''k'') t m' w) = Inl e"
    by (simp add: attempt_alt_def)
qed


lemma parse_bare_envelope: "JSON_parse (envelope_of bare_text) = Some (envelope_value bare_text)"
  by code_simp


lemma attempt_each_once_examples:
  "map url (requests (attempt_each_once
      (attempt (only_model ''gemini-2.5-flash-lite'' (envelope_of sample_site_text)) JSON_parse
         (Some ''k'') (String ''cats''))
      ([''gemini-3.0''] @ [''gemini-2.5-flash-lite'']) empty_world))
    = [api_url ''gemini-3.0'' (Some ''k''), api_url ''gemini-2.5-flash-lite'' (Some ''k'')]"
  "map url (requests (attempt_each_once
      (attempt_alt (only_model ''gemini-2.5-flash'' (envelope_of sample_site_text)) JSON_parse
         (Some ''k'') (String ''cats''))
      ([''gemini-2.5-flash-lite''] @ [''gemini-2.5-flash'']) empty_world))
    = [api_url ''gemini-2.5-flash-lite'' (Some ''k''), api_url ''gemini-2.5-flash'' (Some ''k'')]"
  by code_simp+

text \<open>
  C2, as the code has it. No check is made that an attempt's value is a site, so the
  model that decides is the earliest one whose attempt returns a value instead of
  throwing. Let the model list be \<open>before @ model # after\<close>, every model of \<open>before\<close> fail
  and the attempt of \<open>model\<close> return \<open>v\<close>. Then the loop takes \<open>v\<close>. Every model of \<open>before\<close>
  and \<open>model\<close> itself is attempted exactly once, in list order: the requests issued and the
  delays slept are those of \<open>attempt_each_once\<close> on \<open>before @ [model]\<close>; in \<open>src/server.js\<close>
  the "Trying model" lines are those of \<open>before\<close> and of \<open>model\<close>, and in
  \<open>src/unnamed/part_000\<close> the warnings are those of \<open>before\<close>. No model of \<open>after\<close> is
  attempted: the result and the world are what they would be with nothing after \<open>model\<close>
  in the list. With the program's own list, and a topic that converts to a string, the
  endpoint answers 200 with \<open>v\<close> when \<open>v\<close> is an object.
\<close>

theorem first_successful_model_wins:
  "((\<forall>m \<in> set before. \<forall>w. \<exists>e. fst (attempt T parse key topic m w) = Inl e)
      \<and> (\<forall>w. fst (attempt T parse key topic model w) = Inr v)
    \<longrightarrow> fst (model_loop T parse key topic (before @ model # after) w) = v
      \<and> requests (snd (model_loop T parse key topic (before @ model # after) w))
          = requests (attempt_each_once (attempt T parse key topic) (before @ [model]) w)
      \<and> sleeps (snd (model_loop T parse key topic (before @ model # after) w))
          = sleeps (attempt_each_once (attempt T parse key topic) (before @ [model]) w)
      \<and> tried (console (snd (model_loop T parse key topic (before @ model # after) w)))
          = tried (console w) @ before @ [model]
      \<and> model_loop T parse key topic (before @ model # after) w
          = model_loop T parse key topic (before @ [model]) w
      \<and> (v = Object props \<and> MODELS = before @ model # after \<and> select_topic req_body = Inr topic
          \<and> truthy topic \<and> \<not> key_missing key \<and> \<not> to_string_throws topic
        \<longrightarrow> fst (generate T parse key req_body w) = \<lparr>code = 200, payload = JsonBody (Object props)\<rparr>))
   \<and> ((\<forall>m \<in> set before. \<forall>w. \<exists>e. fst (attempt_alt T parse key topic m w) = Inl e)
      \<and> (\<forall>w. fst (attempt_alt T parse key topic model w) = Inr v)
    \<longrightarrow> fst (model_loop_alt T parse key topic (before @ model # after) w) = v
      \<and> requests (snd (model_loop_alt T parse key topic (before @ model # after) w))
          = requests (attempt_each_once (attempt_alt T parse key topic) (before @ [model]) w)
      \<and> sleeps (snd (model_loop_alt T parse key topic (before @ model # after) w))
          = sleeps (attempt_each_once (attempt_alt T parse key topic) (before @ [model]) w)
      \<and> warned (console (snd (model_loop_alt T parse key topic (before @ model # after) w)))
          = warned (console w) @ before
      \<and> model_loop_alt T parse key topic (before @ model # after) w
          = model_loop_alt T parse key topic (before @ [model]) w
      \<and> (v = Object props \<and> MODELS_alt = before @ model # after \<and> select_topic req_body = Inr topic
          \<and> truthy topic \<and> \<not> key_missing key \<and> \<not> to_string_throws topic
        \<longrightarrow> fst (generate_alt T parse key req_body w)
            = \<lparr>code = 200, payload = JsonBody (Object props)\<rparr>))"
proof (intro conjI impI)
  assume h: "(\<forall>m \<in> set before. \<forall>w. \<exists>e. fst (attempt T parse key topic m w) = Inl e)
      \<and> (\<forall>w. fst (attempt T parse key topic model w) = Inr v)"
  note l = model_loop_first_success [of before T parse key topic model v after w]
  note o = model_loop_once_each [of before T parse key topic model v w w after]
  from h l show v: "fst (model_loop T parse key topic (before @ model # after) w) = v"
    by blast
  from h o show "requests (snd (model_loop T parse key topic (before @ model # after) w))
          = requests (attempt_each_once (attempt T parse key topic) (before @ [model]) w)"
    by blast
  from h o show "sleeps (snd (model_loop T parse key topic (before @ model # after) w))
          = sleeps (attempt_each_once (attempt T parse key topic) (before @ [model]) w)"
    by blast
  from h l show "tried (console (snd (model_loop T parse key topic (before @ model # after) w)))
          = tried (console w) @ before @ [model]"
    by blast
  from h l show "model_loop T parse key topic (before @ model # after) w
          = model_loop T parse key topic (before @ [model]) w"
    by blast
  assume g: "v = Object props \<and> MODELS = before @ model # after \<and> select_topic req_body = Inr topic
          \<and> truthy topic \<and> \<not> key_missing key \<and> \<not> to_string_throws topic"
  with v have "fst (model_loop T parse key topic MODELS w) = Object props"
    by simp
  with g generate_success [of req_body topic key T parse w "Object props"]
  show "fst (generate T parse key req_body w) = \<lparr>code = 200, payload = JsonBody (Object props)\<rparr>"
    by simp
next
  assume h: "(\<forall>m \<in> set before. \<forall>w. \<exists>e. fst (attempt_alt T parse key topic m w) = Inl e)
      \<and> (\<forall>w. fst (attempt_alt T parse key topic model w) = Inr v)"
  note l = model_loop_alt_first_success [of before T parse key topic model v after w]
  note o = model_loop_alt_once_each [of before T parse key topic model v w w after]
  from h l show v: "fst (model_loop_alt T parse key topic (before @ model # after) w) = v"
    by blast
  from h o show "requests (snd (model_loop_alt T parse key topic (before @ model # after) w))
          = requests (attempt_each_once (attempt_alt T parse key topic) (before @ [model]) w)"
    by blast
  from h o show "sleeps (snd (model_loop_alt T parse key topic (before @ model # after) w))
          = sleeps (attempt_each_once (attempt_alt T parse key topic) (before @ [model]) w)"
    by blast
  from h l show "warned (console (snd (model_loop_alt T parse key topic (before @ model # after) w)))
          = warned (console w) @ before"
    by blast
  from h l show "model_loop_alt T parse key topic (before @ model # after) w
          = model_loop_alt T parse key topic (before @ [model]) w"
    by blast
  assume g: "v = Object props \<and> MODELS_alt = before @ model # after \<and> select_topic req_body = Inr topic
          \<and> truthy topic \<and> \<not> key_missing key \<and> \<not> to_string_throws topic"
  with v have "fst (model_loop_alt T parse key topic MODELS_alt w) = Object props"
    by simp
  with g generate_alt_success [of req_body topic key T parse w "Object props"]
  show "fst (generate_alt T parse key req_body w) = \<lparr>code = 200, payload = JsonBody (Object props)\<rparr>"
    by simp
qed


theorem first_successful_model_wins_witness:
  "((\<forall>w. \<exists>e.
        fst (attempt (only_model ''gemini-2.5-flash-lite'' (envelope_of sample_site_text)) JSON_parse
               (Some ''k'') (String ''cats'') ''gemini-3.0'' w) = Inl e)
     \<and> (\<forall>w. fst (attempt (only_model ''gemini-2.5-flash-lite'' (envelope_of sample_site_text)) JSON_parse
               (Some ''k'') (String ''cats'') ''gemini-2.5-flash-lite'' w) = Inr (Object sample_site)))
   \<and> fst (model_loop (only_model ''gemini-2.5-flash-lite'' (envelope_of sample_site_text)) JSON_parse
            (Some ''k'') (String ''cats'') MODELS empty_world) = Object sample_site
   \<and> map url (requests (snd (model_loop (only_model ''gemini-2.5-flash-lite'' (envelope_of sample_site_text))
            JSON_parse (Some ''k'') (String ''cats'') MODELS empty_world)))
       = [api_url ''gemini-3.0'' (Some ''k''), api_url ''gemini-2.5-flash-lite'' (Some ''k'')]
   \<and> tried (console (snd (model_loop (only_model ''gemini-2.5-flash-lite'' (envelope_of sample_site_text))
            JSON_parse (Some ''k'') (String ''cats'') MODELS empty_world)))
       = [''gemini-3.0'', ''gemini-2.5-flash-lite'']
   \<and> (MODELS = [''gemini-3.0''] @ ''gemini-2.5-flash-lite'' # [''gemini-2.5-flash'', ''gemini-2.5-pro'']
       \<and> select_topic (Object [(''topic'', String ''cats'')]) = Inr (String ''cats'')
       \<and> truthy (String ''cats'') \<and> \<not> key_missing (Some ''k'')
       \<and> \<not> to_string_throws (String ''cats''))
   \<and> fst (generate (only_model ''gemini-2.5-flash-lite'' (envelope_of sample_site_text)) JSON_parse
            (Some ''k'') (Object [(''topic'', String ''cats'')]) empty_world)
       = \<lparr>code = 200, payload = JsonBody (Object sample_site)\<rparr>
   \<and> ((\<forall>w. \<exists>e.
        fst (attempt_alt (only_model ''gemini-2.5-flash'' (envelope_of sample_site_text)) JSON_parse
               (Some ''k'') (String ''cats'') ''gemini-2.5-flash-lite'' w) = Inl e)
     \<and> (\<forall>w. fst (attempt_alt (only_model ''gemini-2.5-flash'' (envelope_of sample_site_text)) JSON_parse
               (Some ''k'') (String ''cats'') ''gemini-2.5-flash'' w) = Inr (Object sample_site)))
   \<and> fst (model_loop_alt (only_model ''gemini-2.5-flash'' (envelope_of sample_site_text)) JSON_parse
            (Some ''k'') (String ''cats'') MODELS_alt empty_world) = Object sample_site
   \<and> map url (requests (snd (model_loop_alt (only_model ''gemini-2.5-flash'' (envelope_of sample_site_text))
            JSON_parse (Some ''k'') (String ''cats'') MODELS_alt empty_world)))
       = [api_url ''gemini-2.5-flash-lite'' (Some ''k''), api_url ''gemini-2.5-flash'' (Some ''k'')]
   \<and> warned (console (snd (model_loop_alt (only_model ''gemini-2.5-flash'' (envelope_of sample_site_text))
            JSON_parse (Some ''k'') (String ''cats'') MODELS_alt empty_world)))
       = [''gemini-2.5-flash-lite'']
   \<and> fst (generate_alt (only_model ''gemini-2.5-flash'' (envelope_of sample_site_text)) JSON_parse
            (Some ''k'') (Object [(''topic'', String ''cats'')]) empty_world)
       = \<lparr>code = 200, payload = JsonBody (Object sample_site)\<rparr>"
proof -
  let ?T = "only_model ''gemini-2.5-flash-lite'' (envelope_of sample_site_text)"
  let ?U = "only_model ''gemini-2.5-flash'' (envelope_of sample_site_text)"
  have a: "(\<forall>m \<in> set [''gemini-3.0'']. \<forall>w. \<exists>e.
        fst (attempt ?T JSON_parse (Some ''k'') (String ''cats'') m w) = Inl e)
     \<and> (\<forall>w. fst (attempt ?T JSON_parse (Some ''k'') (String ''cats'') ''gemini-2.5-flash-lite'' w)
            = Inr (Object sample_site))"
    by (simp add: attempt_only_model attempt_other_model)
  have b: "(\<forall>m \<in> set [''gemini-2.5-flash-lite'']. \<forall>w. \<exists>e.
        fst (attempt_alt ?U JSON_parse (Some ''k'') (String ''cats'') m w) = Inl e)
     \<and> (\<forall>w. fst (attempt_alt ?U JSON_parse (Some ''k'') (String ''cats'') ''gemini-2.5-flash'' w)
            = Inr (Object sample_site))"
    by (simp add: attempt_only_model attempt_other_model)
  have m: "MODELS = [''gemini-3.0''] @ ''gemini-2.5-flash-lite'' # [''gemini-2.5-flash'', ''gemini-2.5-pro'']"
    "MODELS_alt = [''gemini-2.5-flash-lite''] @ ''gemini-2.5-flash'' # [''gemini-2.5-pro'']"
    by (simp_all add: MODELS_def MODELS_alt_def)
  have c: "select_topic (Object [(''topic'', String ''cats'')]) = Inr (String ''cats'')
       \<and> truthy (String ''cats'') \<and> \<not> key_missing (Some ''k'')
       \<and> \<not> to_string_throws (String ''cats'')"
    by (simp add: select_topic_def key_missing_def)
  have t: "tried (console empty_world) = []" "warned (console empty_world) = []"
    by (simp_all add: empty_world_def)
  note th1 = first_successful_model_wins [of "[''gemini-3.0'']" ?T JSON_parse "Some ''k''"
      "String ''cats''" "''gemini-2.5-flash-lite''" "Object sample_site"
      "[''gemini-2.5-flash'', ''gemini-2.5-pro'']" empty_world sample_site
      "Object [(''topic'', String ''cats'')]", folded m(1)]
  note th2 = first_successful_model_wins [of "[''gemini-2.5-flash-lite'']" ?U JSON_parse "Some ''k''"
      "String ''cats''" "''gemini-2.5-flash''" "Object sample_site" "[''gemini-2.5-pro'']"
      empty_world sample_site "Object [(''topic'', String ''cats'')]", folded m(2)]
  from th1 a c
  have r1: "fst (model_loop ?T JSON_parse (Some ''k'') (String ''cats'') MODELS empty_world) = Object sample_site"
    and r2: "tried (console (snd (model_loop ?T JSON_parse (Some ''k'') (String ''cats'') MODELS empty_world)))
        = tried (console empty_world) @ [''gemini-3.0''] @ [''gemini-2.5-flash-lite'']"
    and r3: "fst (generate ?T JSON_parse (Some ''k'') (Object [(''topic'', String ''cats'')]) empty_world)
        = \<lparr>code = 200, payload = JsonBody (Object sample_site)\<rparr>"
    and r4: "requests (snd (model_loop ?T JSON_parse (Some ''k'') (String ''cats'') MODELS empty_world))
        = requests (attempt_each_once (attempt ?T JSON_parse (Some ''k'') (String ''cats''))
            ([''gemini-3.0''] @ [''gemini-2.5-flash-lite'']) empty_world)"
    by blast+
  from th2 b c
  have s1: "fst (model_loop_alt ?U JSON_parse (Some ''k'') (String ''cats'') MODELS_alt empty_world) = Object sample_site"
    and s2: "warned (console (snd (model_loop_alt ?U JSON_parse (Some ''k'') (String ''cats'') MODELS_alt empty_world)))
        = warned (console empty_world) @ [''gemini-2.5-flash-lite'']"
    and s3: "fst (generate_alt ?U JSON_parse (Some ''k'') (Object [(''topic'', String ''cats'')]) empty_world)
        = \<lparr>code = 200, payload = JsonBody (Object sample_site)\<rparr>"
    and s4: "requests (snd (model_loop_alt ?U JSON_parse (Some ''k'') (String ''cats'') MODELS_alt empty_world))
        = requests (attempt_each_once (attempt_alt ?U JSON_parse (Some ''k'') (String ''cats''))
            ([''gemini-2.5-flash-lite''] @ [''gemini-2.5-flash'']) empty_world)"
    by blast+
  have r2': "tried (console (snd (model_loop ?T JSON_parse (Some ''k'') (String ''cats'') MODELS empty_world)))
        = [''gemini-3.0'', ''gemini-2.5-flash-lite'']"
    unfolding r2 t by simp
  have s2': "warned (console (snd (model_loop_alt ?U JSON_parse (Some ''k'') (String ''cats'') MODELS_alt empty_world)))
        = [''gemini-2.5-flash-lite'']"
    unfolding s2 t by simp
  have r4': "map url (requests (snd (model_loop ?T JSON_parse (Some ''k'') (String ''cats'') MODELS empty_world)))
        = [api_url ''gemini-3.0'' (Some ''k''), api_url ''gemini-2.5-flash-lite'' (Some ''k'')]"
    unfolding r4 by (rule attempt_each_once_examples(1))
  have s4': "map url (requests (snd (model_loop_alt ?U JSON_parse (Some ''k'') (String ''cats'') MODELS_alt empty_world)))
        = [api_url ''gemini-2.5-flash-lite'' (Some ''k''), api_url ''gemini-2.5-flash'' (Some ''k'')]"
    unfolding s4 by (rule attempt_each_once_examples(2))
  have a': "\<forall>w. \<exists>e. fst (attempt ?T JSON_parse (Some ''k'') (String ''cats'') ''gemini-3.0'' w) = Inl e"
    using a by simp
  have b': "\<forall>w. \<exists>e. fst (attempt_alt ?U JSON_parse (Some ''k'') (String ''cats'')
      ''gemini-2.5-flash-lite'' w) = Inl e"
    using b by simp
  from a a' b b' c m(1) r1 r2' r3 r4' s1 s2' s3 s4' show ?thesis
    by blast
qed

text \<open>
  The claim as stated fails. Here the first model of the list answers with the text
  \<open>Here it is: {} Enjoy\<close>, whose value \<open>{}\<close> is not a site, and the second model would
  yield a complete site. The endpoint answers 200 with \<open>{}\<close> after one request to the
  first model; the site of the earliest model that yields one is not returned, and that
  model is never asked.
\<close>

theorem earliest_site_not_returned_counterexample:
  "fst (attempt (reply_by_model ''gemini-3.0'' (envelope_of bare_text) (envelope_of sample_site_text))
          JSON_parse (Some ''k'') (String ''cats'') ''gemini-3.0'' empty_world) = Inr (Object [])
   \<and> fst (attempt (reply_by_model ''gemini-3.0'' (envelope_of bare_text) (envelope_of sample_site_text))
          JSON_parse (Some ''k'') (String ''cats'') ''gemini-2.5-flash-lite'' empty_world)
       = Inr (Object [(''html'', String ''a''), (''css'', String ''b''), (''js'', String ''c'')])
   \<and> fst (generate (reply_by_model ''gemini-3.0'' (envelope_of bare_text) (envelope_of sample_site_text))
          JSON_parse (Some ''k'') (Object [(''topic'', String ''cats'')]) empty_world)
       = \<lparr>code = 200, payload = JsonBody (Object [])\<rparr>
   \<and> map url (requests (snd (generate
          (reply_by_model ''gemini-3.0'' (envelope_of bare_text) (envelope_of sample_site_text))
          JSON_parse (Some ''k'') (Object [(''topic'', String ''cats'')]) empty_world)))
       = [api_url ''gemini-3.0'' (Some ''k'')]
   \<and> fst (attempt_alt
          (reply_by_model ''gemini-2.5-flash-lite'' (envelope_of bare_text) (envelope_of sample_site_text))
          JSON_parse (Some ''k'') (String ''cats'') ''gemini-2.5-flash-lite'' empty_world) = Inr (Object [])
   \<and> fst (attempt_alt
          (reply_by_model ''gemini-2.5-flash-lite'' (envelope_of bare_text) (envelope_of sample_site_text))
          JSON_parse (Some ''k'') (String ''cats'') ''gemini-2.5-flash'' empty_world)
       = Inr (Object [(''html'', String ''a''), (''css'', String ''b''), (''js'', String ''c'')])
   \<and> fst (generate_alt
          (reply_by_model ''gemini-2.5-flash-lite'' (envelope_of bare_text) (envelope_of sample_site_text))
          JSON_parse (Some ''k'') (Object [(''topic'', String ''cats'')]) empty_world)
       = \<lparr>code = 200, payload = JsonBody (Object [])\<rparr>
   \<and> map url (requests (snd (generate_alt
          (reply_by_model ''gemini-2.5-flash-lite'' (envelope_of bare_text) (envelope_of sample_site_text))
          JSON_parse (Some ''k'') (Object [(''topic'', String ''cats'')]) empty_world)))
       = [api_url ''gemini-2.5-flash-lite'' (Some ''k'')]"
  by code_simp

text \<open>
  A path that can be read gives the same value when read with \<open>?.\<close>. An attempt whose
  response carries an envelope with a text that has a span of valid JSON returns the value
  of that span.
\<close>

lemma read_opt_path: "read_path v ks = Inr x \<Longrightarrow> opt_path v ks = x"
  by (induction ks arbitrary: v) (auto simp: opt_prop_def split: sum.splits)

lemma attempt_extracts:
  assumes "i < length text" "text ! i = CHR ''{''" "CHR ''{'' \<notin> set (take i text)"
    and "j < length text" "text ! j = CHR ''}''" "CHR ''}'' \<notin> set (drop (Suc j) text)"
    and "i \<le> j" "parse (take (Suc j - i) (drop i text)) = Some v"
    and "parse envelope = Some data" "read_path data text_path = Inr (String text)"
  shows "fst (fetchWithRetry T \<lparr>url = api_url model key, prompt_topic = topic, safety_settings = True\<rparr>
                3 2000 w) = Inr r \<Longrightarrow> body r = envelope \<Longrightarrow>
         fst (attempt T parse key topic model w) = Inr v"
    and "fst (fetchWithRetry_alt T \<lparr>url = api_url model key, prompt_topic = topic, safety_settings = False\<rparr>
                3 2000 w) = Inr r \<Longrightarrow> body r = envelope \<Longrightarrow>
         fst (attempt_alt T parse key topic model w) = Inr v"
proof -
  have t: "truthy (opt_path data text_path)"
    using read_opt_path [OF assms(10)] assms(1) by auto
  have e: "extractJSON parse (String text) = Inr v"
    using extractJSON_try_in_order(1) [OF assms(1-7), of parse] assms(8)
    by (simp add: extractJSON_def del: extractJSON_try.simps)
  have f: "extractJSON_alt parse (String text) = Inr v"
    using extractJSON_try_in_order(2) [OF assms(1-7), of parse] assms(8)
    by (simp del: extractJSON_alt.simps)
  show "fst (fetchWithRetry T \<lparr>url = api_url model key, prompt_topic = topic, safety_settings = True\<rparr>
                3 2000 w) = Inr r \<Longrightarrow> body r = envelope \<Longrightarrow>
         fst (attempt T parse key topic model w) = Inr v"
    using assms(9,10) t e by (auto simp: attempt_def split: prod.splits)
  show "fst (fetchWithRetry_alt T \<lparr>url = api_url model key, prompt_topic = topic, safety_settings = False\<rparr>
                3 2000 w) = Inr r \<Longrightarrow> body r = envelope \<Longrightarrow>
         fst (attempt_alt T parse key topic model w) = Inr v"
    using assms(9,10) f by (auto simp: attempt_alt_def split: prod.splits)
qed

text \<open>
  C9. The extracted value is not checked for the keys \<open>html\<close>, \<open>css\<close> and \<open>js\<close>. When the
  provider's reply for \<open>model\<close> has the envelope \<open>data\<close>, its text has its first \<open>{\<close> at \<open>i\<close>
  and its last \<open>}\<close> at \<open>j \<ge> i\<close>, and the characters from \<open>i\<close> to \<open>j\<close> parse as the object
  \<open>Object props\<close>, whatever its keys are, the attempt succeeds with that object; and when
  the models before \<open>model\<close> fail and the topic converts to a string for the prompt, as
  every string does, the endpoint answers 200 with the same object as its body. The example that follows is the object \<open>{}\<close>, which has none of the three keys.
\<close>

theorem no_schema_validation:
  "i < length text \<and> text ! i = CHR ''{'' \<and> CHR ''{'' \<notin> set (take i text)
   \<and> j < length text \<and> text ! j = CHR ''}'' \<and> CHR ''}'' \<notin> set (drop (Suc j) text) \<and> i \<le> j
   \<and> parse (take (Suc j - i) (drop i text)) = Some (Object props)
   \<and> parse envelope = Some data \<and> read_path data text_path = Inr (String text)
   \<longrightarrow>
     ((\<forall>w. \<exists>r. fst (fetchWithRetry T
                \<lparr>url = api_url model key, prompt_topic = topic, safety_settings = True\<rparr> 3 2000 w) = Inr r
              \<and> body r = envelope)
      \<longrightarrow> (\<forall>w. fst (attempt T parse key topic model w) = Inr (Object props))
        \<and> ((\<forall>m \<in> set before. \<forall>w. \<exists>e. fst (attempt T parse key topic m w) = Inl e)
            \<and> MODELS = before @ model # after
            \<and> select_topic req_body = Inr topic \<and> truthy topic \<and> \<not> key_missing key
            \<and> \<not> to_string_throws topic
          \<longrightarrow> fst (generate T parse key req_body w)
              = \<lparr>code = 200, payload = JsonBody (Object props)\<rparr>))
     \<and> ((\<forall>w. \<exists>r. fst (fetchWithRetry_alt T
                \<lparr>url = api_url model key, prompt_topic = topic, safety_settings = False\<rparr> 3 2000 w) = Inr r
              \<and> body r = envelope)
      \<longrightarrow> (\<forall>w. fst (attempt_alt T parse key topic model w) = Inr (Object props))
        \<and> ((\<forall>m \<in> set before. \<forall>w. \<exists>e. fst (attempt_alt T parse key topic m w) = Inl e)
            \<and> MODELS_alt = before @ model # after
            \<and> select_topic req_body = Inr topic \<and> truthy topic \<and> \<not> key_missing key
            \<and> \<not> to_string_throws topic
          \<longrightarrow> fst (generate_alt T parse key req_body w)
              = \<lparr>code = 200, payload = JsonBody (Object props)\<rparr>))"
proof (intro impI)
  assume h: "i < length text \<and> text ! i = CHR ''{'' \<and> CHR ''{'' \<notin> set (take i text)
   \<and> j < length text \<and> text ! j = CHR ''}'' \<and> CHR ''}'' \<notin> set (drop (Suc j) text) \<and> i \<le> j
   \<and> parse (take (Suc j - i) (drop i text)) = Some (Object props)
   \<and> parse envelope = Some data \<and> read_path data text_path = Inr (String text)"
  note ex = attempt_extracts [of i "text" j parse "Object props" envelope data]
  show "((\<forall>w. \<exists>r. fst (fetchWithRetry T
                \<lparr>url = api_url model key, prompt_topic = topic, safety_settings = True\<rparr> 3 2000 w) = Inr r
              \<and> body r = envelope)
      \<longrightarrow> (\<forall>w. fst (attempt T parse key topic model w) = Inr (Object props))
        \<and> ((\<forall>m \<in> set before. \<forall>w. \<exists>e. fst (attempt T parse key topic m w) = Inl e)
            \<and> MODELS = before @ model # after
            \<and> select_topic req_body = Inr topic \<and> truthy topic \<and> \<not> key_missing key
            \<and> \<not> to_string_throws topic
          \<longrightarrow> fst (generate T parse key req_body w)
              = \<lparr>code = 200, payload = JsonBody (Object props)\<rparr>))
     \<and> ((\<forall>w. \<exists>r. fst (fetchWithRetry_alt T
                \<lparr>url = api_url model key, prompt_topic = topic, safety_settings = False\<rparr> 3 2000 w) = Inr r
              \<and> body r = envelope)
      \<longrightarrow> (\<forall>w. fst (attempt_alt T parse key topic model w) = Inr (Object props))
        \<and> ((\<forall>m \<in> set before. \<forall>w. \<exists>e. fst (attempt_alt T parse key topic m w) = Inl e)
            \<and> MODELS_alt = before @ model # after
            \<and> select_topic req_body = Inr topic \<and> truthy topic \<and> \<not> key_missing key
            \<and> \<not> to_string_throws topic
          \<longrightarrow> fst (generate_alt T parse key req_body w)
              = \<lparr>code = 200, payload = JsonBody (Object props)\<rparr>))"
  proof (intro conjI impI)
    assume f: "\<forall>w. \<exists>r. fst (fetchWithRetry T
                \<lparr>url = api_url model key, prompt_topic = topic, safety_settings = True\<rparr> 3 2000 w) = Inr r
              \<and> body r = envelope"
    show a: "\<forall>w. fst (attempt T parse key topic model w) = Inr (Object props)"
      using h f ex(1) [of T model key topic] by blast
    assume g: "(\<forall>m \<in> set before. \<forall>w. \<exists>e. fst (attempt T parse key topic m w) = Inl e)
            \<and> MODELS = before @ model # after
            \<and> select_topic req_body = Inr topic \<and> truthy topic \<and> \<not> key_missing key
            \<and> \<not> to_string_throws topic"
    with a model_loop_first_success [of before T parse key topic model "Object props" after w]
    have "fst (model_loop T parse key topic (before @ model # after) w) = Object props"
      by blast
    with g have "fst (model_loop T parse key topic MODELS w) = Object props"
      by simp
    with g generate_success [of req_body topic key T parse w "Object props"]
    show "fst (generate T parse key req_body w) = \<lparr>code = 200, payload = JsonBody (Object props)\<rparr>"
      by simp
  next
    assume f: "\<forall>w. \<exists>r. fst (fetchWithRetry_alt T
                \<lparr>url = api_url model key, prompt_topic = topic, safety_settings = False\<rparr> 3 2000 w) = Inr r
              \<and> body r = envelope"
    show a: "\<forall>w. fst (attempt_alt T parse key topic model w) = Inr (Object props)"
      using h f ex(2) [of T model key topic] by blast
    assume g: "(\<forall>m \<in> set before. \<forall>w. \<exists>e. fst (attempt_alt T parse key topic m w) = Inl e)
            \<and> MODELS_alt = before @ model # after
            \<and> select_topic req_body = Inr topic \<and> truthy topic \<and> \<not> key_missing key
            \<and> \<not> to_string_throws topic"
    with a model_loop_alt_first_success [of before T parse key topic model "Object props" after w]
    have "fst (model_loop_alt T parse key topic (before @ model # after) w) = Object props"
      by blast
    with g have "fst (model_loop_alt T parse key topic MODELS_alt w) = Object props"
      by simp
    with g generate_alt_success [of req_body topic key T parse w "Object props"]
    show "fst (generate_alt T parse key req_body w) = \<lparr>code = 200, payload = JsonBody (Object props)\<rparr>"
      by simp
  qed
qed


theorem no_schema_validation_witness:
  "(12 < length bare_text \<and> bare_text ! 12 = CHR ''{'' \<and> CHR ''{'' \<notin> set (take 12 bare_text)
    \<and> 13 < length bare_text \<and> bare_text ! 13 = CHR ''}'' \<and> CHR ''}'' \<notin> set (drop (Suc 13) bare_text)
    \<and> (12 :: nat) \<le> 13
    \<and> JSON_parse (take (Suc 13 - 12) (drop 12 bare_text)) = Some (Object [])
    \<and> JSON_parse (envelope_of bare_text) = Some (envelope_value bare_text)
    \<and> read_path (envelope_value bare_text) text_path = Inr (String bare_text))
   \<and> (\<forall>w. \<exists>r. fst (fetchWithRetry (only_model ''gemini-2.5-flash-lite'' (envelope_of bare_text))
              \<lparr>url = api_url ''gemini-2.5-flash-lite'' (Some ''k''), prompt_topic = String ''cats'',
                 safety_settings = True\<rparr> 3 2000 w) = Inr r
            \<and> body r = envelope_of bare_text)
   \<and> (\<forall>w. fst (attempt (only_model ''gemini-2.5-flash-lite'' (envelope_of bare_text)) JSON_parse
              (Some ''k'') (String ''cats'') ''gemini-2.5-flash-lite'' w) = Inr (Object []))
   \<and> ((\<forall>w. \<exists>e. fst (attempt (only_model ''gemini-2.5-flash-lite'' (envelope_of bare_text)) JSON_parse
              (Some ''k'') (String ''cats'') ''gemini-3.0'' w) = Inl e)
       \<and> MODELS = [''gemini-3.0''] @ ''gemini-2.5-flash-lite'' # [''gemini-2.5-flash'', ''gemini-2.5-pro'']
       \<and> select_topic (Object [(''topic'', String ''cats'')]) = Inr (String ''cats'')
       \<and> truthy (String ''cats'') \<and> \<not> key_missing (Some ''k'')
       \<and> \<not> to_string_throws (String ''cats''))
   \<and> fst (generate (only_model ''gemini-2.5-flash-lite'' (envelope_of bare_text)) JSON_parse (Some ''k'')
            (Object [(''topic'', String ''cats'')]) empty_world)
       = \<lparr>code = 200, payload = JsonBody (Object [])\<rparr>
   \<and> (\<forall>w. \<exists>r. fst (fetchWithRetry_alt (only_model ''gemini-2.5-flash'' (envelope_of bare_text))
              \<lparr>url = api_url ''gemini-2.5-flash'' (Some ''k''), prompt_topic = String ''cats'',
                 safety_settings = False\<rparr> 3 2000 w) = Inr r
            \<and> body r = envelope_of bare_text)
   \<and> ((\<forall>w. \<exists>e. fst (attempt_alt (only_model ''gemini-2.5-flash'' (envelope_of bare_text)) JSON_parse
              (Some ''k'') (String ''cats'') ''gemini-2.5-flash-lite'' w) = Inl e)
       \<and> MODELS_alt = [''gemini-2.5-flash-lite''] @ ''gemini-2.5-flash'' # [''gemini-2.5-pro''])
   \<and> fst (generate_alt (only_model ''gemini-2.5-flash'' (envelope_of bare_text)) JSON_parse (Some ''k'')
            (Object [(''topic'', String ''cats'')]) empty_world)
       = \<lparr>code = 200, payload = JsonBody (Object [])\<rparr>"
proof -
  let ?T = "only_model ''gemini-2.5-flash-lite'' (envelope_of bare_text)"
  let ?U = "only_model ''gemini-2.5-flash'' (envelope_of bare_text)"
  have h: "12 < length bare_text \<and> bare_text ! 12 = CHR ''{'' \<and> CHR ''{'' \<notin> set (take 12 bare_text)
    \<and> 13 < length bare_text \<and> bare_text ! 13 = CHR ''}'' \<and> CHR ''}'' \<notin> set (drop (Suc 13) bare_text)
    \<and> (12 :: nat) \<le> 13
    \<and> JSON_parse (take (Suc 13 - 12) (drop 12 bare_text)) = Some (Object [])
    \<and> JSON_parse (envelope_of bare_text) = Some (envelope_value bare_text)
    \<and> read_path (envelope_value bare_text) text_path = Inr (String bare_text)"
    by (simp add: parse_bare_envelope read_envelope_value) (simp add: bare_text_def parse_empty_object)
  have f: "\<forall>w. \<exists>r. fst (fetchWithRetry ?T
              \<lparr>url = api_url ''gemini-2.5-flash-lite'' (Some ''k''), prompt_topic = String ''cats'',
                 safety_settings = True\<rparr> 3 2000 w) = Inr r
            \<and> body r = envelope_of bare_text"
    by (simp add: fetch_only_model)
  have f': "\<forall>w. \<exists>r. fst (fetchWithRetry_alt ?U
              \<lparr>url = api_url ''gemini-2.5-flash'' (Some ''k''), prompt_topic = String ''cats'',
                 safety_settings = False\<rparr> 3 2000 w) = Inr r
            \<and> body r = envelope_of bare_text"
    by (simp add: fetch_only_model)
  have e: "\<forall>w. \<exists>e. fst (attempt ?T JSON_parse (Some ''k'') (String ''cats'') ''gemini-3.0'' w) = Inl e"
    by (simp add: attempt_other_model)
  have e': "\<forall>w. \<exists>e. fst (attempt_alt ?U JSON_parse (Some ''k'') (String ''cats'')
      ''gemini-2.5-flash-lite'' w) = Inl e"
    by (simp add: attempt_other_model)
  have m: "MODELS = [''gemini-3.0''] @ ''gemini-2.5-flash-lite'' # [''gemini-2.5-flash'', ''gemini-2.5-pro'']"
    "MODELS_alt = [''gemini-2.5-flash-lite''] @ ''gemini-2.5-flash'' # [''gemini-2.5-pro'']"
    by (simp_all add: MODELS_def MODELS_alt_def)
  have c: "select_topic (Object [(''topic'', String ''cats'')]) = Inr (String ''cats'')
       \<and> truthy (String ''cats'') \<and> \<not> key_missing (Some ''k'')
       \<and> \<not> to_string_throws (String ''cats'')"
    by (simp add: select_topic_def key_missing_def)
  have g: "\<forall>m \<in> set [''gemini-3.0'']. \<forall>w. \<exists>e.
      fst (attempt ?T JSON_parse (Some ''k'') (String ''cats'') m w) = Inl e"
    using e by simp
  have g': "\<forall>m \<in> set [''gemini-2.5-flash-lite'']. \<forall>w. \<exists>e.
      fst (attempt_alt ?U JSON_parse (Some ''k'') (String ''cats'') m w) = Inl e"
    using e' by simp
  note th1 = no_schema_validation [of 12 bare_text 13 JSON_parse "[]" "envelope_of bare_text"
      "envelope_value bare_text" ?T "''gemini-2.5-flash-lite''" "Some ''k''" "String ''cats''"
      "[''gemini-3.0'']" "[''gemini-2.5-flash'', ''gemini-2.5-pro'']"
      "Object [(''topic'', String ''cats'')]" empty_world]
  note th2 = no_schema_validation [of 12 bare_text 13 JSON_parse "[]" "envelope_of bare_text"
      "envelope_value bare_text" ?U "''gemini-2.5-flash''" "Some ''k''" "String ''cats''"
      "[''gemini-2.5-flash-lite'']" "[''gemini-2.5-pro'']"
      "Object [(''topic'', String ''cats'')]" empty_world]
  from h f g m(1) c th1
  have r1: "\<forall>w. fst (attempt ?T JSON_parse (Some ''k'') (String ''cats'') ''gemini-2.5-flash-lite'' w)
        = Inr (Object [])"
    and r2: "fst (generate ?T JSON_parse (Some ''k'') (Object [(''topic'', String ''cats'')]) empty_world)
       = \<lparr>code = 200, payload = JsonBody (Object [])\<rparr>"
    by blast+
  from h f' g' m(2) c th2
  have r3: "fst (generate_alt ?U JSON_parse (Some ''k'') (Object [(''topic'', String ''cats'')]) empty_world)
       = \<lparr>code = 200, payload = JsonBody (Object [])\<rparr>"
    by blast
  from h f f' e e' m c r1 r2 r3 show ?thesis
    by blast
qed



end
